theory Spec2Isabelle
  imports Main "HOL-Library.Multiset"
begin

section \<open>The HPOA disease-annotation transform\<close>

text \<open>
  A shallow embedding of \<^verbatim>\<open>DiseaseAnnotations\<close>
  (\<^verbatim>\<open>kg_covid_19/transform_utils/disease_annotations/disease_annotations.py\<close>).

  Conventions of the model:
  \<^item> a Python \<^verbatim>\<open>str\<close> is a \<open>string\<close>; a value that is either a \<^verbatim>\<open>str\<close> or
    \<^verbatim>\<open>None\<close> is a \<open>string option\<close>;
  \<^item> an exception is a value of type \<open>error\<close>;
  \<^item> a text file opened for reading is the list of its lines, each line keeping
    its terminator (the file is opened with \<^verbatim>\<open>newline=''\<close>);
  \<^item> a file written through \<^verbatim>\<open>csv.DictWriter\<close> is the list of the records handed
    to the writer, header first, each record being the list of its rendered fields;
    how the csv library turns a record into bytes (delimiter, escaping, line
    terminator) is not modelled;
  \<^item> a Python \<^verbatim>\<open>set\<close> is a duplicate-free list, enumerated in insertion order.
    Python leaves the iteration order of a set open, so statements about files with
    more than one data row are made up to the order of the rows;
  \<^item> the functions of the Python standard library that the transform calls and whose
    results are opaque here (\<^verbatim>\<open>uuid.uuid3\<close>, \<^verbatim>\<open>gzip.open\<close>) are parameters
    of the model.
\<close>

subsection \<open>Rows, errors\<close>

text \<open>
  A row as \<^verbatim>\<open>csv.DictReader\<close> yields it: the named fields (a missing trailing
  field holds \<^verbatim>\<open>None\<close>, the reader's \<^verbatim>\<open>restval\<close>), and, when the line has more
  fields than the header, the surplus stored under the key \<^verbatim>\<open>None\<close> (the reader's
  \<^verbatim>\<open>restkey\<close>).
\<close>

record source_row =
  named :: "(string \<times> string option) list"
  restkey :: "string list option"

datatype error =
    StopIteration
  | CsvError string
  | KeyError string
  | TypeError string
  | OSError string
  | ValueError_unexpected_qualifier "string option" source_row
  | ValueError_cannot_open string
  | ValueError_newline_in_binary_mode

subsection \<open>The csv reader under \<^verbatim>\<open>TsvDialect\<close>\<close>

text \<open>
  \<^verbatim>\<open>TsvDialect\<close> (lines 124-130 of the source): tab delimiter, backslash escape
  character, no quoting, initial spaces of a field skipped.
\<close>

definition delimiter :: char where
  "delimiter = CHR 0x09"

definition escapechar :: char where
  "escapechar = CHR 0x5C"

definition skipinitialspace :: bool where
  "skipinitialspace = True"

definition LF :: char where
  "LF = CHR 0x0A"

definition CR :: char where
  "CR = CHR 0x0D"

text \<open>
  The record parser of CPython's \<^verbatim>\<open>_csv\<close> module (as of CPython 3.11), restricted to
  dialects with \<^verbatim>\<open>QUOTE_NONE\<close>: the states of quoted fields cannot be reached and are
  left out. The end of a line is the pseudo character \<open>None\<close>. A field longer than
  the module's field size limit raises.
\<close>

datatype parser_state =
  START_RECORD | START_FIELD | ESCAPED_CHAR | IN_FIELD | EAT_CRNL | AFTER_ESCAPED_CRNL

record reader =
  rec_fields :: "string list"
  field :: string
  state :: parser_state

definition field_limit :: nat where
  "field_limit = 131072"

definition parse_reset :: reader where
  "parse_reset = \<lparr>rec_fields = [], field = [], state = START_RECORD\<rparr>"

definition parse_save_field :: "reader \<Rightarrow> reader" where
  "parse_save_field r = r\<lparr>rec_fields := rec_fields r @ [field r], field := []\<rparr>"

definition parse_add_char :: "reader \<Rightarrow> char \<Rightarrow> error + reader" where
  "parse_add_char r c =
     (if field_limit \<le> length (field r)
      then Inl (CsvError ''field larger than field limit (131072)'')
      else Inr (r\<lparr>field := field r @ [c]\<rparr>))"

definition set_state :: "parser_state \<Rightarrow> error + reader \<Rightarrow> error + reader" where
  "set_state s x = (case x of Inl e \<Rightarrow> Inl e | Inr r \<Rightarrow> Inr (r\<lparr>state := s\<rparr>))"

definition start_field :: "reader \<Rightarrow> char option \<Rightarrow> error + reader" where
  "start_field r c =
     (case c of
        None \<Rightarrow> Inr ((parse_save_field r)\<lparr>state := START_RECORD\<rparr>)
      | Some ch \<Rightarrow>
          if ch = LF \<or> ch = CR then Inr ((parse_save_field r)\<lparr>state := EAT_CRNL\<rparr>)
          else if ch = escapechar then Inr (r\<lparr>state := ESCAPED_CHAR\<rparr>)
          else if ch = CHR '' '' \<and> skipinitialspace then Inr r
          else if ch = delimiter then Inr (parse_save_field r)
          else set_state IN_FIELD (parse_add_char r ch))"

definition in_field :: "reader \<Rightarrow> char option \<Rightarrow> error + reader" where
  "in_field r c =
     (case c of
        None \<Rightarrow> Inr ((parse_save_field r)\<lparr>state := START_RECORD\<rparr>)
      | Some ch \<Rightarrow>
          if ch = LF \<or> ch = CR then Inr ((parse_save_field r)\<lparr>state := EAT_CRNL\<rparr>)
          else if ch = escapechar then Inr (r\<lparr>state := ESCAPED_CHAR\<rparr>)
          else if ch = delimiter then Inr ((parse_save_field r)\<lparr>state := START_FIELD\<rparr>)
          else parse_add_char r ch)"

definition parse_process_char :: "reader \<Rightarrow> char option \<Rightarrow> error + reader" where
  "parse_process_char r c =
     (case state r of
        START_RECORD \<Rightarrow>
          (case c of
             None \<Rightarrow> Inr r
           | Some ch \<Rightarrow>
               if ch = LF \<or> ch = CR then Inr (r\<lparr>state := EAT_CRNL\<rparr>)
               else start_field (r\<lparr>state := START_FIELD\<rparr>) c)
      | START_FIELD \<Rightarrow> start_field r c
      | ESCAPED_CHAR \<Rightarrow>
          (case c of
             None \<Rightarrow> set_state IN_FIELD (parse_add_char r LF)
           | Some ch \<Rightarrow>
               if ch = LF \<or> ch = CR then set_state AFTER_ESCAPED_CRNL (parse_add_char r ch)
               else set_state IN_FIELD (parse_add_char r ch))
      | AFTER_ESCAPED_CRNL \<Rightarrow>
          (case c of None \<Rightarrow> Inr r | Some ch \<Rightarrow> in_field r c)
      | IN_FIELD \<Rightarrow> in_field r c
      | EAT_CRNL \<Rightarrow>
          (case c of
             None \<Rightarrow> Inr (r\<lparr>state := START_RECORD\<rparr>)
           | Some ch \<Rightarrow>
               if ch = LF \<or> ch = CR then Inr r
               else Inl (CsvError ''new-line character seen in unquoted field'')))"

fun process_chars :: "reader \<Rightarrow> string \<Rightarrow> error + reader" where
  "process_chars r [] = Inr r"
| "process_chars r (c # cs) =
     (case parse_process_char r (Some c) of
        Inl e \<Rightarrow> Inl e
      | Inr r' \<Rightarrow> process_chars r' cs)"

definition process_line :: "reader \<Rightarrow> string \<Rightarrow> error + reader" where
  "process_line r l =
     (case process_chars r l of
        Inl e \<Rightarrow> Inl e
      | Inr r' \<Rightarrow> parse_process_char r' None)"

text \<open>
  The reader as an iterator over the remaining lines: the results of its successive
  \<^verbatim>\<open>__next__\<close> calls, up to the end of the input or the first exception. One call
  consumes lines until the parser is back in \<open>START_RECORD\<close>; at the end of the input
  a pending non-empty field is saved and the record returned.
\<close>

fun reader_iter :: "reader \<Rightarrow> string list \<Rightarrow> (error + string list) list" where
  "reader_iter r [] =
     (if field r \<noteq> [] then [Inr (rec_fields (parse_save_field r))] else [])"
| "reader_iter r (l # ls) =
     (case process_line r l of
        Inl e \<Rightarrow> [Inl e]
      | Inr r' \<Rightarrow>
          if state r' = START_RECORD then Inr (rec_fields r') # reader_iter parse_reset ls
          else reader_iter r' ls)"

definition csv_reader :: "string list \<Rightarrow> (error + string list) list" where
  "csv_reader fh = reader_iter parse_reset fh"

text \<open>
  \<^verbatim>\<open>csv.DictReader\<close> with the field names given: empty records are skipped, the
  others become rows. The field names of the transform are distinct, so looking a key
  up in the list of named fields is looking it up in the dictionary.
\<close>

definition to_row :: "string list \<Rightarrow> string list \<Rightarrow> source_row" where
  "to_row fieldnames rec =
     \<lparr>named = zip fieldnames
                (map Some rec @ replicate (length fieldnames - length rec) None),
      restkey = (if length fieldnames < length rec
                 then Some (drop (length fieldnames) rec) else None)\<rparr>"

fun dict_rows :: "string list \<Rightarrow> (error + string list) list \<Rightarrow> (error + source_row) list" where
  "dict_rows fieldnames [] = []"
| "dict_rows fieldnames (Inl e # rs) = Inl e # dict_rows fieldnames rs"
| "dict_rows fieldnames (Inr rec # rs) =
     (if rec = [] then dict_rows fieldnames rs
      else Inr (to_row fieldnames rec) # dict_rows fieldnames rs)"

definition DictReader :: "string list \<Rightarrow> string list \<Rightarrow> (error + source_row) list" where
  "DictReader fh fieldnames = dict_rows fieldnames (csv_reader fh)"

definition getitem :: "source_row \<Rightarrow> string \<Rightarrow> error + string option" where
  "getitem row k = (case map_of (named row) k of None \<Rightarrow> Inl (KeyError k) | Some v \<Rightarrow> Inr v)"

subsection \<open>Nodes, edges and sets\<close>

text \<open>
  The named tuples \<^verbatim>\<open>KgxNode\<close> and \<^verbatim>\<open>KgxEdge\<close> (lines 10-13). Equality of named
  tuples is equality of all fields, as equality of records is. The fields \<^verbatim>\<open>id\<close>
  and \<^verbatim>\<open>category\<close> carry the tuple's name as a suffix.
\<close>

record KgxNode =
  id_node :: "string option"
  category_node :: string
  name :: "string option"
  provided_by :: string

record KgxEdge =
  id_edge :: string
  subject :: "string option"
  predicate :: string
  object :: "string option"
  relation :: string
  primary_knowledge_source :: string
  category_edge :: string
  publications :: "string option"

text \<open>\<^verbatim>\<open>s.add(x)\<close> on a set.\<close>

definition set_add :: "'a \<Rightarrow> 'a list \<Rightarrow> 'a list" where
  "set_add x s = (if x \<in> set s then s else s @ [x])"

subsection \<open>The transform object\<close>

record DiseaseAnnotations =
  file_header :: "string list"
  add_excluded_phenotype :: bool
  input_base_dir :: string
  output_dir :: string

text \<open>
  \<^verbatim>\<open>__init__\<close> (lines 20-29). The two directories are attributes that the base
  class \<^verbatim>\<open>Transform\<close> sets; they are taken as given.
\<close>

definition init :: "string \<Rightarrow> string \<Rightarrow> DiseaseAnnotations" where
  "init input_base output =
     \<lparr>file_header = [''DatabaseID'', ''DiseaseName'', ''Qualifier'', ''HPO_ID'',
                     ''Reference'', ''Evidence'', ''Onset'', ''Frequency'', ''Sex'',
                     ''Modifier'', ''Aspect'', ''Biocuration''],
      add_excluded_phenotype = False,
      input_base_dir = input_base,
      output_dir = output\<rparr>"

subsection \<open>The constants of \<^verbatim>\<open>parse\<close> (lines 41-45)\<close>

definition category :: string where
  "category = ''biolink:Disease''"

definition provided_by_hpoa :: string where
  "provided_by_hpoa = ''HPO:hpoa''"

definition has_phenotype :: string where
  "has_phenotype = ''biolink:has_phenotype''"

definition has_symptom :: string where
  "has_symptom = ''RO:0002200''"

definition phenotype_to_disease_association :: string where
  "phenotype_to_disease_association = ''biolink:PhenotypeToDiseaseAssociation''"

subsection \<open>The read loop (lines 59-84)\<close>

text \<open>Lines 60-67: the presence of the phenotype, from the qualifier.\<close>

definition phenotype_is_present :: "source_row \<Rightarrow> error + bool" where
  "phenotype_is_present row =
     (case getitem row ''Qualifier'' of
        Inl e \<Rightarrow> Inl e
      | Inr qualifier \<Rightarrow>
          if qualifier = Some [] then Inr True
          else if qualifier = Some ''NOT'' then Inr False
          else Inl (ValueError_unexpected_qualifier qualifier row))"

text \<open>\<^verbatim>\<open>str(b)\<close> of a \<^verbatim>\<open>bool\<close>.\<close>

definition str_bool :: "bool \<Rightarrow> string" where
  "str_bool b = (if b then ''True'' else ''False'')"

text \<open>\<^verbatim>\<open>sep.join(xs)\<close>: a \<^verbatim>\<open>TypeError\<close> when an item is not a \<^verbatim>\<open>str\<close>.\<close>

fun join :: "string \<Rightarrow> string option list \<Rightarrow> error + string" where
  "join sep [] = Inr []"
| "join sep (None # xs) = Inl (TypeError ''expected str instance, NoneType found'')"
| "join sep [Some x] = Inr x"
| "join sep (Some x # xs) =
     (case join sep xs of Inl e \<Rightarrow> Inl e | Inr r \<Rightarrow> Inr (x @ sep @ r))"

text \<open>The namespaces of the \<^verbatim>\<open>uuid\<close> module.\<close>

datatype uuid_namespace = NAMESPACE_DNS | NAMESPACE_URL | NAMESPACE_OID | NAMESPACE_X500

text \<open>
  Lines 79-80. The parameter \<open>uuid3\<close> stands for \<^verbatim>\<open>str(uuid.uuid3(namespace, name))\<close>.
\<close>

definition edge_id ::
  "(uuid_namespace \<Rightarrow> string \<Rightarrow> string) \<Rightarrow> string option \<Rightarrow> string option \<Rightarrow> bool
     \<Rightarrow> error + string" where
  "edge_id uuid3 disease_id hpo_id present =
     (case join ''-'' [disease_id, hpo_id, Some (str_bool present)] of
        Inl e \<Rightarrow> Inl e
      | Inr nm \<Rightarrow> Inr (''urn:uuid:'' @ uuid3 NAMESPACE_DNS nm))"

text \<open>Lines 72-84: the node and the edge of a retained row, added to the two sets.\<close>

definition add_row ::
  "(uuid_namespace \<Rightarrow> string \<Rightarrow> string) \<Rightarrow> source_row \<Rightarrow> bool
     \<Rightarrow> KgxNode list \<Rightarrow> KgxEdge list \<Rightarrow> error + KgxNode list \<times> KgxEdge list" where
  "add_row uuid3 row present nodes edges =
     (case getitem row ''DiseaseName'' of Inl e \<Rightarrow> Inl e | Inr disease_name \<Rightarrow>
      case getitem row ''DatabaseID'' of Inl e \<Rightarrow> Inl e | Inr disease_id \<Rightarrow>
      case getitem row ''HPO_ID'' of Inl e \<Rightarrow> Inl e | Inr hpo_id \<Rightarrow>
      let node = \<lparr>id_node = disease_id, category_node = category,
                  name = disease_name, provided_by = provided_by_hpoa\<rparr>;
          nodes' = set_add node nodes
      in case edge_id uuid3 disease_id hpo_id present of Inl e \<Rightarrow> Inl e | Inr eid \<Rightarrow>
         case getitem row ''Reference'' of Inl e \<Rightarrow> Inl e | Inr reference \<Rightarrow>
         let edge = \<lparr>id_edge = eid, subject = disease_id, predicate = has_phenotype,
                     object = hpo_id, relation = has_symptom,
                     primary_knowledge_source = provided_by_hpoa,
                     category_edge = phenotype_to_disease_association,
                     publications = reference\<rparr>
         in Inr (nodes', set_add edge edges))"

text \<open>
  The \<^verbatim>\<open>for\<close> loop over the rows of the reader; \<open>excl\<close> is the attribute
  \<^verbatim>\<open>_add_excluded_phenotype\<close>. An exception of the reader ends the loop as one of
  the body does.
\<close>

fun read_loop ::
  "(uuid_namespace \<Rightarrow> string \<Rightarrow> string) \<Rightarrow> bool \<Rightarrow> (error + source_row) list
     \<Rightarrow> KgxNode list \<Rightarrow> KgxEdge list \<Rightarrow> error + KgxNode list \<times> KgxEdge list" where
  "read_loop uuid3 excl [] nodes edges = Inr (nodes, edges)"
| "read_loop uuid3 excl (Inl e # rows) nodes edges = Inl e"
| "read_loop uuid3 excl (Inr row # rows) nodes edges =
     (case phenotype_is_present row of
        Inl e \<Rightarrow> Inl e
      | Inr present \<Rightarrow>
          if \<not> excl \<and> \<not> present then read_loop uuid3 excl rows nodes edges
          else (case add_row uuid3 row present nodes edges of
                  Inl e \<Rightarrow> Inl e
                | Inr (nodes', edges') \<Rightarrow> read_loop uuid3 excl rows nodes' edges'))"

subsection \<open>Files\<close>

text \<open>
  The file system: the text files that can be opened for reading, and the files
  written through a csv writer. Opening a missing file for reading raises; opening a
  file for writing creates or truncates it (the output directory is assumed to
  exist).
\<close>

record filesystem =
  texts :: "string \<rightharpoonup> string list"
  tables :: "string \<rightharpoonup> string list list"

definition open_text :: "filesystem \<Rightarrow> string \<Rightarrow> error + string list" where
  "open_text fs data_file =
     (case texts fs data_file of
        None \<Rightarrow> Inl (OSError data_file)
      | Some ls \<Rightarrow> Inr ls)"

text \<open>
  \<^verbatim>\<open>_open_file\<close> (lines 113-121). \<^verbatim>\<open>if compression:\<close> is false for \<^verbatim>\<open>None\<close> and
  for the empty string. The parameter \<open>gzip_open\<close> stands for
  \<^verbatim>\<open>gzip.open(data_file, newline='')\<close>: the exception it raises or the lines of the
  stream it returns.
\<close>

definition open_file ::
  "(string \<Rightarrow> error + string list) \<Rightarrow> filesystem \<Rightarrow> string
     \<Rightarrow> string option \<Rightarrow> error + string list" where
  "open_file gzip_open fs data_file compression =
     (case compression of
        None \<Rightarrow> open_text fs data_file
      | Some c \<Rightarrow>
          if c \<noteq> [] then
            if c = ''gz'' then gzip_open data_file
            else Inl (ValueError_cannot_open c)
          else open_text fs data_file)"

text \<open>Line 56: five \<^verbatim>\<open>next(fh)\<close>; a file of fewer lines raises \<^verbatim>\<open>StopIteration\<close>.\<close>

definition skip_header :: "string list \<Rightarrow> error + string list" where
  "skip_header fh = (if length fh < 5 then Inl StopIteration else Inr (drop 5 fh))"

text \<open>\<^verbatim>\<open>os.path.join\<close> of a directory and a relative file name (POSIX).\<close>

definition path_join :: "string \<Rightarrow> string \<Rightarrow> string" where
  "path_join d f = (if d = [] then f else if last d = CHR ''/'' then d @ f else d @ ''/'' @ f)"

subsection \<open>The writer (lines 86-111)\<close>

text \<open>
  \<^verbatim>\<open>DictWriter.writerow\<close>: the values of the row dictionary in the order of the field
  names, a field name that is no key giving the writer's \<^verbatim>\<open>restval\<close>, the empty
  string; the csv writer renders \<^verbatim>\<open>None\<close> as the empty string. The keys of the
  dictionaries built at lines 93-96 and 106-110 are field names, so the check for
  surplus keys never raises and is left out.
\<close>

definition render :: "string option \<Rightarrow> string" where
  "render v = (case v of None \<Rightarrow> [] | Some s \<Rightarrow> s)"

definition dict_to_list :: "string list \<Rightarrow> (string \<times> string option) list \<Rightarrow> string list" where
  "dict_to_list fieldnames rowdict =
     map (\<lambda>k. case map_of rowdict k of None \<Rightarrow> [] | Some v \<Rightarrow> render v) fieldnames"

text \<open>
  \<^verbatim>\<open>open(path, 'w')\<close>, \<^verbatim>\<open>writeheader()\<close> and one \<^verbatim>\<open>writerow\<close> for each element of
  the set.
\<close>

definition write_table ::
  "filesystem \<Rightarrow> string \<Rightarrow> string list \<Rightarrow> (string \<times> string option) list list \<Rightarrow> filesystem" where
  "write_table fs path fieldnames rowdicts =
     fs\<lparr>tables := (tables fs)(path \<mapsto> fieldnames # map (dict_to_list fieldnames) rowdicts)\<rparr>"

definition node_tsv_column_names :: "string list" where
  "node_tsv_column_names = [''id'', ''category'', ''name'', ''provided_by'']"

definition edge_tsv_column_names :: "string list" where
  "edge_tsv_column_names =
     [''subject'', ''predicate'', ''object'', ''relation'', ''provided_by'', '''']"

text \<open>Lines 93-96 and 106-110: the dictionaries handed to the writers.\<close>

definition node_row :: "KgxNode \<Rightarrow> (string \<times> string option) list" where
  "node_row node =
     [(''id'', id_node node), (''category'', Some (category_node node)),
      (''name'', name node), (''provided_by'', Some (provided_by node))]"

definition edge_row :: "KgxEdge \<Rightarrow> (string \<times> string option) list" where
  "edge_row edge =
     [(''subject'', subject edge), (''predicate'', Some (predicate edge)),
      (''object'', object edge), (''relation'', Some (relation edge)),
      (''provided_by'', Some (primary_knowledge_source edge))]"

definition nodes_out_path :: "DiseaseAnnotations \<Rightarrow> string" where
  "nodes_out_path self = path_join (output_dir self) ''HPOA_nodes.tsv''"

definition edges_out_path :: "DiseaseAnnotations \<Rightarrow> string" where
  "edges_out_path self = path_join (output_dir self) ''HPOA_edges.tsv''"

definition write_nodes :: "DiseaseAnnotations \<Rightarrow> KgxNode list \<Rightarrow> filesystem \<Rightarrow> filesystem" where
  "write_nodes self nodes fs =
     write_table fs (nodes_out_path self) node_tsv_column_names (map node_row nodes)"

definition write_edges :: "DiseaseAnnotations \<Rightarrow> KgxEdge list \<Rightarrow> filesystem \<Rightarrow> filesystem" where
  "write_edges self edges fs =
     write_table fs (edges_out_path self) edge_tsv_column_names (map edge_row edges)"

subsection \<open>\<^verbatim>\<open>parse\<close> and \<^verbatim>\<open>run\<close>\<close>

text \<open>
  Lines 51-84: the two sets built from the opened file. Nothing is written here.
\<close>

definition collect ::
  "(uuid_namespace \<Rightarrow> string \<Rightarrow> string) \<Rightarrow> (string \<Rightarrow> error + string list)
     \<Rightarrow> DiseaseAnnotations \<Rightarrow> string \<Rightarrow> string option \<Rightarrow> filesystem
     \<Rightarrow> error + KgxNode list \<times> KgxEdge list" where
  "collect uuid3 gzip_open self data_file compression fs =
     (case open_file gzip_open fs data_file compression of
        Inl e \<Rightarrow> Inl e
      | Inr fh \<Rightarrow>
          (case skip_header fh of
             Inl e \<Rightarrow> Inl e
           | Inr fh' \<Rightarrow>
               read_loop uuid3 (add_excluded_phenotype self)
                 (DictReader fh' (file_header self)) [] []))"

text \<open>
  \<^verbatim>\<open>parse\<close> (lines 38-111): the exception raised, if any, and the file system
  left behind.
\<close>

definition parse ::
  "(uuid_namespace \<Rightarrow> string \<Rightarrow> string) \<Rightarrow> (string \<Rightarrow> error + string list)
     \<Rightarrow> DiseaseAnnotations \<Rightarrow> string \<Rightarrow> string option \<Rightarrow> filesystem
     \<Rightarrow> error option \<times> filesystem" where
  "parse uuid3 gzip_open self data_file compression fs =
     (case collect uuid3 gzip_open self data_file compression fs of
        Inl e \<Rightarrow> (Some e, fs)
      | Inr (nodes, edges) \<Rightarrow>
          (None, write_edges self edges (write_nodes self nodes fs)))"

text \<open>
  \<^verbatim>\<open>run\<close> (lines 31-36); \<^verbatim>\<open>if not data_file\<close> holds for \<^verbatim>\<open>None\<close> and for the
  empty string.
\<close>

definition run ::
  "(uuid_namespace \<Rightarrow> string \<Rightarrow> string) \<Rightarrow> (string \<Rightarrow> error + string list)
     \<Rightarrow> DiseaseAnnotations \<Rightarrow> string option \<Rightarrow> filesystem \<Rightarrow> error option \<times> filesystem" where
  "run uuid3 gzip_open self data_file fs =
     (let data_file' =
            (if data_file = None \<or> data_file = Some []
             then path_join (input_base_dir self) ''phenotype.hpoa''
             else case data_file of Some f \<Rightarrow> f | None \<Rightarrow> [])
      in parse uuid3 gzip_open self data_file' None fs)"

section \<open>Concrete inputs\<close>

text \<open>
  Values for the two library parameters at concrete inputs. The identifier is the
  name itself. \<^verbatim>\<open>gzip.open\<close> is CPython's: its mode defaults to \<^verbatim>\<open>'rb'\<close>, and in a
  binary mode it raises a \<^verbatim>\<open>ValueError\<close> when \<^verbatim>\<open>newline\<close> is given, as line 117 does.
\<close>

definition uuid3_name :: "uuid_namespace \<Rightarrow> string \<Rightarrow> string" where
  "uuid3_name ns nm = nm"

definition gzip_open_binary :: "string \<Rightarrow> error + string list" where
  "gzip_open_binary data_file = Inl ValueError_newline_in_binary_mode"

definition hpoa :: DiseaseAnnotations where
  "hpoa = init ''data/raw'' ''data/transformed/HPOA''"

text \<open>An annotation line: twelve fields separated by tabs, ended by a line feed.\<close>

fun tabbed :: "string list \<Rightarrow> string" where
  "tabbed [] = []"
| "tabbed [x] = x"
| "tabbed (x # xs) = x @ delimiter # tabbed xs"

definition example_fields :: "string \<Rightarrow> string \<Rightarrow> string list" where
  "example_fields qualifier reference =
     [''OMIM:101600'', ''DiseaseX'', qualifier, ''HP:0001'', reference, ''TAS'', '''',
      '''', '''', '''', ''P'', ''HPO:probinson[2020-01-01]'']"

definition example_line :: "string \<Rightarrow> string \<Rightarrow> string" where
  "example_line qualifier reference = tabbed (example_fields qualifier reference) @ [LF]"

definition example_row :: "string \<Rightarrow> string \<Rightarrow> source_row" where
  "example_row qualifier reference =
     to_row (file_header hpoa) (example_fields qualifier reference)"

definition preamble :: "string list" where
  "preamble =
     [''#description: HPO annotations for rare diseases'' @ [LF],
      ''#date: 2020-03-27'' @ [LF],
      ''#tracker: https://github.com/obophenotype/human-phenotype-ontology'' @ [LF],
      ''#HPO-version: http://purl.obolibrary.org/obo/hp.obo'' @ [LF],
      ''DatabaseID'' @ [delimiter] @ ''DiseaseName'' @ [LF]]"

definition example_path :: string where
  "example_path = ''data/raw/phenotype.hpoa''"

definition example_fs :: "string list \<Rightarrow> filesystem" where
  "example_fs ls = \<lparr>texts = [example_path \<mapsto> preamble @ ls], tables = Map.empty\<rparr>"

definition example_node :: KgxNode where
  "example_node =
     \<lparr>id_node = Some ''OMIM:101600'', category_node = ''biolink:Disease'',
      name = Some ''DiseaseX'', provided_by = ''HPO:hpoa''\<rparr>"

definition example_edge :: "bool \<Rightarrow> string \<Rightarrow> KgxEdge" where
  "example_edge present reference =
     \<lparr>id_edge = ''urn:uuid:OMIM:101600-HP:0001-'' @ (if present then ''True'' else ''False''),
      subject = Some ''OMIM:101600'', predicate = ''biolink:has_phenotype'',
      object = Some ''HP:0001'', relation = ''RO:0002200'',
      primary_knowledge_source = ''HPO:hpoa'',
      category_edge = ''biolink:PhenotypeToDiseaseAssociation'',
      publications = Some reference\<rparr>"

text \<open>A row of another disease, its node and its edge.\<close>

definition other_fields :: "string list" where
  "other_fields =
     [''OMIM:202020'', ''DiseaseY'', '''', ''HP:0002'', ''PMID:3'', ''IEA'', '''',
      '''', '''', '''', ''P'', ''HPO:probinson[2020-01-01]'']"

definition other_row :: source_row where
  "other_row = to_row (file_header hpoa) other_fields"

definition other_node :: KgxNode where
  "other_node =
     \<lparr>id_node = Some ''OMIM:202020'', category_node = ''biolink:Disease'',
      name = Some ''DiseaseY'', provided_by = ''HPO:hpoa''\<rparr>"

definition other_edge :: KgxEdge where
  "other_edge =
     \<lparr>id_edge = ''urn:uuid:OMIM:202020-HP:0002-True'',
      subject = Some ''OMIM:202020'', predicate = ''biolink:has_phenotype'',
      object = Some ''HP:0002'', relation = ''RO:0002200'',
      primary_knowledge_source = ''HPO:hpoa'',
      category_edge = ''biolink:PhenotypeToDiseaseAssociation'',
      publications = Some ''PMID:3''\<rparr>"

section \<open>Lemmas\<close>

subsection \<open>Sets\<close>

lemma set_set_add [simp]: "set (set_add x s) = insert x (set s)"
  by (auto simp: set_add_def)

lemma distinct_set_add [simp]: "distinct (set_add x s) = distinct s"
  by (auto simp: set_add_def)

lemma set_add_idem: "set_add x (set_add x s) = set_add x s"
  by (simp add: set_add_def)

lemma set_add_member: "x \<in> set s \<Longrightarrow> set_add x s = s"
  by (simp add: set_add_def)

lemma count_list_distinct: "distinct xs \<Longrightarrow> x \<in> set xs \<Longrightarrow> count_list xs x = 1"
  by (induction xs) auto

lemma not_distinct_map:
  assumes "x \<in> set xs" and "y \<in> set xs" and "x \<noteq> y" and "f x = f y"
  shows "\<not> distinct (map f xs)"
  using assms by (auto simp: distinct_map inj_on_def)

subsection \<open>Rows of the reader\<close>

text \<open>
  A row built for a list of field names has every one of them as a key, so
  \<open>getitem\<close> raises no \<^verbatim>\<open>KeyError\<close> on the rows of the reader.
\<close>

lemma zip_take_length: "zip xs (take (length xs) ys) = zip xs ys"
proof (induction xs arbitrary: ys)
  case Nil
  then show ?case by simp
next
  case (Cons x xs)
  then show ?case by (cases ys) simp_all
qed

lemma getitem_to_row:
  assumes "k \<in> set fieldnames"
  shows "\<exists>v. getitem (to_row fieldnames rec) k = Inr v"
proof -
  define vs where
    "vs = take (length fieldnames)
            (map Some rec @ replicate (length fieldnames - length rec) None)"
  have len: "length fieldnames = length vs"
    unfolding vs_def by simp
  have z: "zip fieldnames (map Some rec @ replicate (length fieldnames - length rec) None) =
           zip fieldnames vs"
    unfolding vs_def by (rule zip_take_length [symmetric])
  from assms obtain v where "map_of (zip fieldnames vs) k = Some v"
    using map_of_zip_is_Some [OF len] by blast
  then show ?thesis by (simp add: getitem_def to_row_def z)
qed

lemma dict_rows_to_row:
  "Inr row \<in> set (dict_rows fieldnames rs) \<Longrightarrow> \<exists>rec. row = to_row fieldnames rec"
  by (induction fieldnames rs rule: dict_rows.induct) (auto split: if_splits)

lemma DictReader_getitem:
  assumes "Inr row \<in> set (DictReader fh fieldnames)" and "k \<in> set fieldnames"
  shows "\<exists>v. getitem row k = Inr v"
  using assms dict_rows_to_row getitem_to_row unfolding DictReader_def by blast

lemma getitem_first5:
  assumes "file_header self = file_header (init input_base output)"
  shows "getitem (to_row (file_header self) (a # b # c # d # e # rest)) ''DatabaseID'' =
           Inr (Some a)"
    and "getitem (to_row (file_header self) (a # b # c # d # e # rest)) ''DiseaseName'' =
           Inr (Some b)"
    and "getitem (to_row (file_header self) (a # b # c # d # e # rest)) ''Qualifier'' =
           Inr (Some c)"
    and "getitem (to_row (file_header self) (a # b # c # d # e # rest)) ''HPO_ID'' =
           Inr (Some d)"
    and "getitem (to_row (file_header self) (a # b # c # d # e # rest)) ''Reference'' =
           Inr (Some e)"
  by (simp_all add: assms init_def to_row_def getitem_def)

subsection \<open>One row\<close>

lemma edge_id_Some:
  "edge_id uuid3 (Some d) (Some h) p =
     Inr (''urn:uuid:'' @ uuid3 NAMESPACE_DNS (d @ ''-'' @ h @ ''-'' @ str_bool p))"
  by (simp add: edge_id_def)

lemma edge_id_None:
  "a = None \<or> b = None \<Longrightarrow> \<exists>e. edge_id uuid3 a b p = Inl e"
  by (cases a; cases b) (auto simp: edge_id_def)

text \<open>When \<open>add_row\<close> returns, and what it returns.\<close>

lemma add_row_Inr:
  "add_row uuid3 row p nodes edges = Inr (nodes', edges') \<longleftrightarrow>
     (\<exists>nm d h ref.
        getitem row ''DiseaseName'' = Inr nm \<and> getitem row ''DatabaseID'' = Inr (Some d)
      \<and> getitem row ''HPO_ID'' = Inr (Some h) \<and> getitem row ''Reference'' = Inr ref
      \<and> nodes' = set_add \<lparr>id_node = Some d, category_node = category, name = nm,
                           provided_by = provided_by_hpoa\<rparr> nodes
      \<and> edges' = set_add
          \<lparr>id_edge = ''urn:uuid:'' @ uuid3 NAMESPACE_DNS (d @ ''-'' @ h @ ''-'' @ str_bool p),
           subject = Some d, predicate = has_phenotype, object = Some h,
           relation = has_symptom, primary_knowledge_source = provided_by_hpoa,
           category_edge = phenotype_to_disease_association, publications = ref\<rparr> edges)"
proof (cases "getitem row ''DiseaseName''")
  case Inl
  then show ?thesis by (simp add: add_row_def)
next
  case nm: (Inr nm)
  show ?thesis
  proof (cases "getitem row ''DatabaseID''")
    case Inl
    then show ?thesis by (simp add: add_row_def nm)
  next
    case d: (Inr d)
    show ?thesis
    proof (cases "getitem row ''HPO_ID''")
      case Inl
      then show ?thesis by (simp add: add_row_def nm d)
    next
      case h: (Inr h)
      show ?thesis
      proof (cases "d = None \<or> h = None")
        case True
        then obtain e where "edge_id uuid3 d h p = Inl e"
          using edge_id_None by blast
        with True show ?thesis by (auto simp add: add_row_def nm d h Let_def)
      next
        case False
        then obtain d' h' where dh: "d = Some d'" "h = Some h'" by auto
        show ?thesis
        proof (cases "getitem row ''Reference''")
          case Inl
          then show ?thesis by (simp add: add_row_def nm d h dh edge_id_Some Let_def)
        next
          case (Inr ref)
          then show ?thesis by (auto simp add: add_row_def nm d h dh edge_id_Some Let_def)
        qed
      qed
    qed
  qed
qed

text \<open>
  The node and the edge of a row are those that \<open>add_row\<close> puts into two empty sets.
\<close>

lemma add_row_single:
  "add_row uuid3 row p nodes edges = Inr (nodes', edges') \<longleftrightarrow>
     (\<exists>n e. add_row uuid3 row p [] [] = Inr ([n], [e])
        \<and> nodes' = set_add n nodes \<and> edges' = set_add e edges)"
proof
  assume "add_row uuid3 row p nodes edges = Inr (nodes', edges')"
  then obtain nm d h ref where g:
    "getitem row ''DiseaseName'' = Inr nm" "getitem row ''DatabaseID'' = Inr (Some d)"
    "getitem row ''HPO_ID'' = Inr (Some h)" "getitem row ''Reference'' = Inr ref"
    and r: "nodes' = set_add \<lparr>id_node = Some d, category_node = category, name = nm,
                           provided_by = provided_by_hpoa\<rparr> nodes"
     "edges' = set_add
          \<lparr>id_edge = ''urn:uuid:'' @ uuid3 NAMESPACE_DNS (d @ ''-'' @ h @ ''-'' @ str_bool p),
           subject = Some d, predicate = has_phenotype, object = Some h,
           relation = has_symptom, primary_knowledge_source = provided_by_hpoa,
           category_edge = phenotype_to_disease_association, publications = ref\<rparr> edges"
    unfolding add_row_Inr by blast
  have "add_row uuid3 row p [] [] =
      Inr ([\<lparr>id_node = Some d, category_node = category, name = nm,
              provided_by = provided_by_hpoa\<rparr>],
           [\<lparr>id_edge = ''urn:uuid:'' @ uuid3 NAMESPACE_DNS (d @ ''-'' @ h @ ''-'' @ str_bool p),
             subject = Some d, predicate = has_phenotype, object = Some h,
             relation = has_symptom, primary_knowledge_source = provided_by_hpoa,
             category_edge = phenotype_to_disease_association, publications = ref\<rparr>])"
    unfolding add_row_Inr using g by (simp add: set_add_def)
  with r show "\<exists>n e. add_row uuid3 row p [] [] = Inr ([n], [e])
        \<and> nodes' = set_add n nodes \<and> edges' = set_add e edges" by blast
next
  assume "\<exists>n e. add_row uuid3 row p [] [] = Inr ([n], [e])
        \<and> nodes' = set_add n nodes \<and> edges' = set_add e edges"
  then obtain n e where a: "add_row uuid3 row p [] [] = Inr ([n], [e])"
    and r: "nodes' = set_add n nodes" "edges' = set_add e edges" by blast
  from a obtain nm d h ref where g:
    "getitem row ''DiseaseName'' = Inr nm" "getitem row ''DatabaseID'' = Inr (Some d)"
    "getitem row ''HPO_ID'' = Inr (Some h)" "getitem row ''Reference'' = Inr ref"
    and "[n] = set_add \<lparr>id_node = Some d, category_node = category, name = nm,
                           provided_by = provided_by_hpoa\<rparr> []"
     "[e] = set_add
          \<lparr>id_edge = ''urn:uuid:'' @ uuid3 NAMESPACE_DNS (d @ ''-'' @ h @ ''-'' @ str_bool p),
           subject = Some d, predicate = has_phenotype, object = Some h,
           relation = has_symptom, primary_knowledge_source = provided_by_hpoa,
           category_edge = phenotype_to_disease_association, publications = ref\<rparr> []"
    unfolding add_row_Inr by blast
  then have "n = \<lparr>id_node = Some d, category_node = category, name = nm,
                           provided_by = provided_by_hpoa\<rparr>"
    "e = \<lparr>id_edge = ''urn:uuid:'' @ uuid3 NAMESPACE_DNS (d @ ''-'' @ h @ ''-'' @ str_bool p),
           subject = Some d, predicate = has_phenotype, object = Some h,
           relation = has_symptom, primary_knowledge_source = provided_by_hpoa,
           category_edge = phenotype_to_disease_association, publications = ref\<rparr>"
    by (simp_all add: set_add_def)
  with g r show "add_row uuid3 row p nodes edges = Inr (nodes', edges')"
    unfolding add_row_Inr by blast
qed

text \<open>The presence of the phenotype reaches the edge through its identifier only.\<close>

lemma add_row_presence:
  assumes "add_row uuid3 row False [] [] = Inr ([n], [e])"
  shows "\<exists>i. add_row uuid3 row True [] [] = Inr ([n], [e\<lparr>id_edge := i\<rparr>])"
proof -
  from assms [unfolded add_row_Inr] obtain nm d h ref where
    g: "getitem row ''DiseaseName'' = Inr nm" "getitem row ''DatabaseID'' = Inr (Some d)"
      "getitem row ''HPO_ID'' = Inr (Some h)" "getitem row ''Reference'' = Inr ref"
    and n: "[n] = set_add \<lparr>id_node = Some d, category_node = category, name = nm,
                           provided_by = provided_by_hpoa\<rparr> []"
    and e: "[e] = set_add
          \<lparr>id_edge = ''urn:uuid:'' @ uuid3 NAMESPACE_DNS (d @ ''-'' @ h @ ''-'' @ str_bool False),
           subject = Some d, predicate = has_phenotype, object = Some h,
           relation = has_symptom, primary_knowledge_source = provided_by_hpoa,
           category_edge = phenotype_to_disease_association, publications = ref\<rparr> []"
    by blast
  from g n e have "add_row uuid3 row True [] [] = Inr ([n], [e\<lparr>id_edge :=
      ''urn:uuid:'' @ uuid3 NAMESPACE_DNS (d @ ''-'' @ h @ ''-'' @ str_bool True)\<rparr>])"
    unfolding add_row_Inr by (auto simp: set_add_def)
  then show ?thesis by blast
qed

subsection \<open>The read loop\<close>

lemma read_loop_Cons_Inr:
  "read_loop uuid3 excl (Inr row # rows) nodes edges = Inr (nodes', edges') \<longleftrightarrow>
     (\<exists>p. phenotype_is_present row = Inr p \<and>
        (if \<not> excl \<and> \<not> p then read_loop uuid3 excl rows nodes edges = Inr (nodes', edges')
         else \<exists>ns es. add_row uuid3 row p nodes edges = Inr (ns, es)
                \<and> read_loop uuid3 excl rows ns es = Inr (nodes', edges')))"
  by (auto split: sum.splits)

lemma read_loop_append:
  "read_loop uuid3 excl (rows1 @ rows2) nodes edges =
     (case read_loop uuid3 excl rows1 nodes edges of
        Inl e \<Rightarrow> Inl e
      | Inr (ns, es) \<Rightarrow> read_loop uuid3 excl rows2 ns es)"
proof (induction rows1 arbitrary: nodes edges)
  case Nil
  then show ?case by simp
next
  case (Cons r rows1)
  then show ?case by (cases r) (auto split: sum.splits)
qed

text \<open>
  A property of the two sets that every added row keeps holds when the loop ends.
\<close>

lemma read_loop_invariant:
  assumes "read_loop uuid3 excl rows nodes edges = Inr (nodes', edges')"
    and "P nodes edges"
    and step: "\<And>row p ns es ns' es'.
            P ns es \<Longrightarrow> excl \<or> p \<Longrightarrow> add_row uuid3 row p ns es = Inr (ns', es')
              \<Longrightarrow> P ns' es'"
  shows "P nodes' edges'"
  using assms(1,2)
proof (induction rows arbitrary: nodes edges)
  case Nil
  then show ?case by simp
next
  case (Cons r rows)
  show ?case
  proof (cases r)
    case (Inl e)
    with Cons.prems show ?thesis by simp
  next
    case (Inr row)
    from Cons.prems(1) [unfolded Inr read_loop_Cons_Inr] obtain p
      where rest: "if \<not> excl \<and> \<not> p
                 then read_loop uuid3 excl rows nodes edges = Inr (nodes', edges')
                 else \<exists>ns es. add_row uuid3 row p nodes edges = Inr (ns, es)
                        \<and> read_loop uuid3 excl rows ns es = Inr (nodes', edges')"
      by blast
    show ?thesis
    proof (cases "\<not> excl \<and> \<not> p")
      case True
      with rest Cons.IH Cons.prems(2) show ?thesis by simp
    next
      case False
      with rest obtain ns es where "add_row uuid3 row p nodes edges = Inr (ns, es)"
        and "read_loop uuid3 excl rows ns es = Inr (nodes', edges')" by auto
      moreover from False have "excl \<or> p" by simp
      ultimately show ?thesis using Cons.IH step Cons.prems(2) by blast
    qed
  qed
qed

lemma read_loop_mono:
  assumes "read_loop uuid3 excl rows nodes edges = Inr (nodes', edges')"
  shows "set nodes \<subseteq> set nodes' \<and> set edges \<subseteq> set edges'"
proof -
  have "set nodes \<subseteq> set nodes' \<and> set edges \<subseteq> set edges'"
    by (rule read_loop_invariant
          [OF assms, where P = "\<lambda>ns es. set nodes \<subseteq> set ns \<and> set edges \<subseteq> set es"])
       (auto simp: add_row_Inr)
  then show ?thesis .
qed

lemma read_loop_distinct:
  assumes "read_loop uuid3 excl rows nodes edges = Inr (nodes', edges')"
    and "distinct nodes \<and> distinct edges"
  shows "distinct nodes' \<and> distinct edges'"
  by (rule read_loop_invariant [OF assms(1), where P = "\<lambda>ns es. distinct ns \<and> distinct es"])
     (use assms(2) in \<open>auto simp: add_row_Inr\<close>)

text \<open>Every retained row has its node and its edge in the sets the loop returns.\<close>

lemma read_loop_retained:
  assumes "read_loop uuid3 excl rows nodes edges = Inr (nodes', edges')"
    and "Inr row \<in> set rows" and "phenotype_is_present row = Inr p" and "excl \<or> p"
  shows "\<exists>n e. add_row uuid3 row p [] [] = Inr ([n], [e]) \<and> n \<in> set nodes' \<and> e \<in> set edges'"
  using assms(1,2)
proof (induction rows arbitrary: nodes edges)
  case Nil
  then show ?case by simp
next
  case (Cons r rows)
  show ?case
  proof (cases r)
    case (Inl e)
    with Cons.prems show ?thesis by simp
  next
    case (Inr row')
    from Cons.prems(1) [unfolded Inr read_loop_Cons_Inr] obtain q
      where q: "phenotype_is_present row' = Inr q"
      and rest: "if \<not> excl \<and> \<not> q
                 then read_loop uuid3 excl rows nodes edges = Inr (nodes', edges')
                 else \<exists>ns es. add_row uuid3 row' q nodes edges = Inr (ns, es)
                        \<and> read_loop uuid3 excl rows ns es = Inr (nodes', edges')"
      by blast
    show ?thesis
    proof (cases "row' = row")
      case True
      with q assms(3) have qp: "q = p" by simp
      from qp assms(4) have "\<not> (\<not> excl \<and> \<not> q)" by simp
      with rest have "\<exists>ns es. add_row uuid3 row' q nodes edges = Inr (ns, es)
                        \<and> read_loop uuid3 excl rows ns es = Inr (nodes', edges')"
        by (simp only: if_False)
      with True qp obtain ns es where a: "add_row uuid3 row p nodes edges = Inr (ns, es)"
        and l: "read_loop uuid3 excl rows ns es = Inr (nodes', edges')"
        by blast
      from iffD1 [OF add_row_single a]
      obtain n e where s: "add_row uuid3 row p [] [] = Inr ([n], [e])"
        and "ns = set_add n nodes" "es = set_add e edges"
        by blast
      then have "n \<in> set ns" "e \<in> set es" by simp_all
      with read_loop_mono [OF l] s show ?thesis by blast
    next
      case False
      with Cons.prems(2) Inr have mem: "Inr row \<in> set rows" by auto
      show ?thesis
      proof (cases "\<not> excl \<and> \<not> q")
        case True
        with rest Cons.IH mem show ?thesis by simp
      next
        case False
        with rest obtain ns es where "read_loop uuid3 excl rows ns es = Inr (nodes', edges')"
          by auto
        with Cons.IH mem show ?thesis by blast
      qed
    qed
  qed
qed

text \<open>Every edge carries the identifier derived from its subject and its object.\<close>

lemma read_loop_edge_ids:
  assumes "read_loop uuid3 excl rows [] [] = Inr (nodes, edges)"
  shows "\<forall>e \<in> set edges. \<exists>d h p. subject e = Some d \<and> object e = Some h \<and> (excl \<or> p)
            \<and> id_edge e = ''urn:uuid:'' @ uuid3 NAMESPACE_DNS (d @ ''-'' @ h @ ''-'' @ str_bool p)"
proof -
  let ?ok = "\<lambda>e. \<exists>d h p. subject e = Some d \<and> object e = Some h \<and> (excl \<or> p)
            \<and> id_edge e = ''urn:uuid:'' @ uuid3 NAMESPACE_DNS (d @ ''-'' @ h @ ''-'' @ str_bool p)"
  have "\<forall>e \<in> set edges. ?ok e"
  proof (rule read_loop_invariant [OF assms, where P = "\<lambda>ns es. \<forall>e \<in> set es. ?ok e"])
    show "\<forall>e \<in> set []. ?ok e" by simp
  next
    fix row p and ns :: "KgxNode list" and es ns' es'
    assume inv: "\<forall>e \<in> set es. ?ok e" and p: "excl \<or> p"
      and a: "add_row uuid3 row p ns es = Inr (ns', es')"
    from a [unfolded add_row_Inr] obtain nm d h ref where
      "getitem row ''DiseaseName'' = Inr nm" and
      es': "es' = set_add
          \<lparr>id_edge = ''urn:uuid:'' @ uuid3 NAMESPACE_DNS (d @ ''-'' @ h @ ''-'' @ str_bool p),
           subject = Some d, predicate = has_phenotype, object = Some h,
           relation = has_symptom, primary_knowledge_source = provided_by_hpoa,
           category_edge = phenotype_to_disease_association, publications = ref\<rparr> es"
      by blast
    have "?ok \<lparr>id_edge = ''urn:uuid:'' @ uuid3 NAMESPACE_DNS (d @ ''-'' @ h @ ''-'' @ str_bool p),
           subject = Some d, predicate = has_phenotype, object = Some h,
           relation = has_symptom, primary_knowledge_source = provided_by_hpoa,
           category_edge = phenotype_to_disease_association, publications = ref\<rparr>"
      using p by (intro exI [of _ d] exI [of _ h] exI [of _ p]) simp
    with inv show "\<forall>e \<in> set es'. ?ok e" unfolding es' by simp
  qed
  then show ?thesis .
qed

text \<open>
  Rows whose nodes and edges are all in the sets already leave the sets as they are.
\<close>

lemma read_loop_absorbed:
  assumes "read_loop uuid3 excl rows nodes edges = Inr (nodes', edges')"
    and "set nodes' \<subseteq> set ns" and "set edges' \<subseteq> set es"
  shows "read_loop uuid3 excl rows ns es = Inr (ns, es)"
  using assms
proof (induction rows arbitrary: nodes edges)
  case Nil
  then show ?case by simp
next
  case (Cons r rows)
  show ?case
  proof (cases r)
    case (Inl e)
    with Cons.prems show ?thesis by simp
  next
    case (Inr row)
    from Cons.prems(1) [unfolded Inr read_loop_Cons_Inr] obtain p
      where p: "phenotype_is_present row = Inr p"
      and rest: "if \<not> excl \<and> \<not> p
                 then read_loop uuid3 excl rows nodes edges = Inr (nodes', edges')
                 else \<exists>ns es. add_row uuid3 row p nodes edges = Inr (ns, es)
                        \<and> read_loop uuid3 excl rows ns es = Inr (nodes', edges')"
      by blast
    show ?thesis
    proof (cases "\<not> excl \<and> \<not> p")
      case True
      with rest have "read_loop uuid3 excl rows nodes edges = Inr (nodes', edges')" by simp
      from Cons.IH [OF this Cons.prems(2,3)] True p Inr show ?thesis by simp
    next
      case False
      with rest obtain ns1 es1 where a: "add_row uuid3 row p nodes edges = Inr (ns1, es1)"
        and l: "read_loop uuid3 excl rows ns1 es1 = Inr (nodes', edges')" by auto
      from iffD1 [OF add_row_single a] obtain n e
        where s: "add_row uuid3 row p [] [] = Inr ([n], [e])"
          and ne: "ns1 = set_add n nodes" "es1 = set_add e edges" by blast
      from read_loop_mono [OF l] ne Cons.prems(2,3) have "n \<in> set ns" "e \<in> set es" by auto
      then have "set_add n ns = ns" "set_add e es = es" by (simp_all add: set_add_member)
      with s have "\<exists>n e. add_row uuid3 row p [] [] = Inr ([n], [e])
                     \<and> ns = set_add n ns \<and> es = set_add e es"
        by (intro exI [of _ n] exI [of _ e]) simp
      then have "add_row uuid3 row p ns es = Inr (ns, es)"
        by (rule iffD2 [OF add_row_single])
      with Cons.IH [OF l Cons.prems(2,3)] False p Inr show ?thesis by auto
    qed
  qed
qed

text \<open>A row with a qualifier that is neither empty nor \<^verbatim>\<open>NOT\<close> makes the loop raise.\<close>

lemma read_loop_malformed:
  assumes "Inr row \<in> set rows" and "getitem row ''Qualifier'' = Inr q"
    and "q \<noteq> Some []" and "q \<noteq> Some ''NOT''"
  shows "\<exists>e. read_loop uuid3 excl rows nodes edges = Inl e"
  using assms(1)
proof (induction rows arbitrary: nodes edges)
  case Nil
  then show ?case by simp
next
  case (Cons r rows)
  show ?case
  proof (cases r)
    case (Inl e)
    then show ?thesis by simp
  next
    case (Inr row')
    show ?thesis
    proof (cases "row' = row")
      case True
      with assms(2-4) Inr show ?thesis by (simp add: phenotype_is_present_def)
    next
      case False
      with Cons.prems Inr have "Inr row \<in> set rows" by auto
      from Cons.IH [OF this] Inr show ?thesis
        by (auto split: sum.splits)
    qed
  qed
qed

subsection \<open>Reading and writing files\<close>

lemma collect_Inr:
  "collect uuid3 gzip_open self data_file compression fs = Inr (nodes, edges) \<longleftrightarrow>
     (\<exists>fh. open_file gzip_open fs data_file compression = Inr fh \<and> 5 \<le> length fh
        \<and> read_loop uuid3 (add_excluded_phenotype self)
             (DictReader (drop 5 fh) (file_header self)) [] [] = Inr (nodes, edges))"
  by (auto simp: collect_def skip_header_def split: sum.splits)

lemma parse_collect:
  "parse uuid3 gzip_open self data_file compression fs =
     (case collect uuid3 gzip_open self data_file compression fs of
        Inl e \<Rightarrow> (Some e, fs)
      | Inr (nodes, edges) \<Rightarrow> (None, write_edges self edges (write_nodes self nodes fs)))"
  by (simp add: parse_def)

lemma dict_to_list_node_row:
  "dict_to_list node_tsv_column_names (node_row n) =
     [render (id_node n), category_node n, render (name n), provided_by n]"
  by (simp add: dict_to_list_def node_tsv_column_names_def node_row_def render_def)

lemma dict_to_list_edge_row:
  "dict_to_list edge_tsv_column_names (edge_row e) =
     [render (subject e), predicate e, render (object e), relation e,
      primary_knowledge_source e, []]"
  by (simp add: dict_to_list_def edge_tsv_column_names_def edge_row_def render_def)

lemma nodes_edges_paths_differ: "nodes_out_path self \<noteq> edges_out_path self"
  by (simp add: nodes_out_path_def edges_out_path_def path_join_def)

lemma tables_written:
  "tables (write_edges self edges (write_nodes self nodes fs)) (nodes_out_path self) =
     Some (node_tsv_column_names
           # map (\<lambda>n. dict_to_list node_tsv_column_names (node_row n)) nodes)"
  "tables (write_edges self edges (write_nodes self nodes fs)) (edges_out_path self) =
     Some (edge_tsv_column_names
           # map (\<lambda>e. dict_to_list edge_tsv_column_names (edge_row e)) edges)"
  "texts (write_edges self edges (write_nodes self nodes fs)) = texts fs"
  using nodes_edges_paths_differ [of self]
  by (simp_all add: write_edges_def write_nodes_def write_table_def comp_def)

lemma open_file_written:
  "open_file gzip_open (write_edges self edges (write_nodes self nodes fs)) data_file
     compression = open_file gzip_open fs data_file compression"
proof -
  have "open_text (write_edges self edges (write_nodes self nodes fs)) data_file =
        open_text fs data_file"
    by (simp add: open_text_def tables_written)
  then show ?thesis
    by (cases compression) (simp_all add: open_file_def)
qed

text \<open>
  With CPython's \<^verbatim>\<open>gzip.open\<close> the tag \<^verbatim>\<open>gz\<close> raises before anything is read.
\<close>

lemma gz_tag_raises:
  "parse uuid3 gzip_open_binary self data_file (Some ''gz'') fs =
     (Some ValueError_newline_in_binary_mode, fs)"
  by (simp add: parse_collect collect_def open_file_def gzip_open_binary_def)

subsection \<open>The concrete inputs, evaluated\<close>

lemmas reader_defs =
  csv_reader_def process_line_def parse_process_char_def start_field_def in_field_def
  parse_add_char_def parse_save_field_def parse_reset_def set_state_def field_limit_def
  delimiter_def escapechar_def skipinitialspace_def LF_def CR_def

lemma csv_reader_asserted:
  "csv_reader [example_line '''' ''PMID:1''] = [Inr (example_fields '''' ''PMID:1'')]"
  by (simp add: example_line_def example_fields_def reader_defs)

lemma csv_reader_negated:
  "csv_reader [example_line ''NOT'' ''PMID:1''] = [Inr (example_fields ''NOT'' ''PMID:1'')]"
  by (simp add: example_line_def example_fields_def reader_defs)

lemma csv_reader_maybe:
  "csv_reader [example_line ''maybe'' ''PMID:1''] = [Inr (example_fields ''maybe'' ''PMID:1'')]"
  by (simp add: example_line_def example_fields_def reader_defs)

lemma csv_reader_two_references:
  "csv_reader [example_line '''' ''PMID:1'', example_line '''' ''PMID:2''] =
     [Inr (example_fields '''' ''PMID:1''), Inr (example_fields '''' ''PMID:2'')]"
  by (simp add: example_line_def example_fields_def reader_defs)

lemma DictReader_example:
  "DictReader [example_line '''' ''PMID:1''] (file_header hpoa) =
     [Inr (example_row '''' ''PMID:1'')]"
  "DictReader [example_line ''NOT'' ''PMID:1''] (file_header hpoa) =
     [Inr (example_row ''NOT'' ''PMID:1'')]"
  "DictReader [example_line ''maybe'' ''PMID:1''] (file_header hpoa) =
     [Inr (example_row ''maybe'' ''PMID:1'')]"
  "DictReader [example_line '''' ''PMID:1'', example_line '''' ''PMID:2''] (file_header hpoa) =
     [Inr (example_row '''' ''PMID:1''), Inr (example_row '''' ''PMID:2'')]"
  by (simp_all add: DictReader_def csv_reader_asserted csv_reader_negated csv_reader_maybe
        csv_reader_two_references example_row_def)
     (simp_all add: example_fields_def)

lemma getitem_example:
  "getitem (example_row q r) ''DatabaseID'' = Inr (Some ''OMIM:101600'')"
  "getitem (example_row q r) ''DiseaseName'' = Inr (Some ''DiseaseX'')"
  "getitem (example_row q r) ''Qualifier'' = Inr (Some q)"
  "getitem (example_row q r) ''HPO_ID'' = Inr (Some ''HP:0001'')"
  "getitem (example_row q r) ''Reference'' = Inr (Some r)"
  by (simp_all add: example_row_def example_fields_def hpoa_def getitem_first5)

lemma phenotype_is_present_example:
  "phenotype_is_present (example_row '''' r) = Inr True"
  "phenotype_is_present (example_row ''NOT'' r) = Inr False"
  by (simp_all add: phenotype_is_present_def getitem_example)

lemma add_row_example:
  "add_row uuid3_name (example_row q r) p nodes edges =
     Inr (set_add example_node nodes, set_add (example_edge p r) edges)"
  unfolding add_row_Inr
  by (simp add: getitem_example example_node_def example_edge_def uuid3_name_def category_def
        provided_by_hpoa_def has_phenotype_def has_symptom_def
        phenotype_to_disease_association_def str_bool_def)

lemma getitem_other:
  "getitem other_row ''DatabaseID'' = Inr (Some ''OMIM:202020'')"
  "getitem other_row ''DiseaseName'' = Inr (Some ''DiseaseY'')"
  "getitem other_row ''Qualifier'' = Inr (Some '''')"
  "getitem other_row ''HPO_ID'' = Inr (Some ''HP:0002'')"
  "getitem other_row ''Reference'' = Inr (Some ''PMID:3'')"
  by (simp_all add: other_row_def other_fields_def hpoa_def getitem_first5)

lemma phenotype_is_present_other: "phenotype_is_present other_row = Inr True"
  by (simp add: phenotype_is_present_def getitem_other)

lemma add_row_other:
  "add_row uuid3_name other_row True nodes edges =
     Inr (set_add other_node nodes, set_add other_edge edges)"
  unfolding add_row_Inr
  by (simp add: getitem_other other_node_def other_edge_def uuid3_name_def category_def
        provided_by_hpoa_def has_phenotype_def has_symptom_def
        phenotype_to_disease_association_def str_bool_def)

lemma example_other_differ:
  "example_node \<noteq> other_node" "example_edge p r \<noteq> other_edge"
  by (simp_all add: example_node_def other_node_def example_edge_def other_edge_def)

lemma read_loop_example:
  "read_loop uuid3_name excl [Inr (example_row '''' r)] [] [] =
     Inr ([example_node], [example_edge True r])"
  "read_loop uuid3_name excl [Inr (example_row '''' r), Inr (example_row '''' r)] [] [] =
     Inr ([example_node], [example_edge True r])"
  "read_loop uuid3_name excl
     [Inr (example_row '''' ''PMID:1''), Inr (example_row '''' ''PMID:2'')] [] [] =
     Inr ([example_node], [example_edge True ''PMID:1'', example_edge True ''PMID:2''])"
  by (simp_all add: phenotype_is_present_example add_row_example set_add_def example_edge_def)

lemma read_loop_negated_kept:
  "read_loop uuid3_name True
     [Inr (example_row '''' ''PMID:1''), Inr (example_row ''NOT'' ''PMID:1'')] [] [] =
     Inr ([example_node], [example_edge True ''PMID:1'', example_edge False ''PMID:1''])"
  by (simp add: phenotype_is_present_example add_row_example set_add_def example_edge_def)

lemma read_loop_earlier_row_again:
  "read_loop uuid3_name False
     [Inr (example_row '''' ''PMID:1''), Inr other_row, Inr (example_row '''' ''PMID:1'')]
     [] [] =
     Inr ([example_node, other_node], [example_edge True ''PMID:1'', other_edge])"
  by (simp add: phenotype_is_present_example phenotype_is_present_other add_row_example
        add_row_other set_add_def example_other_differ example_other_differ [symmetric])

lemma open_example:
  "open_file gzip_open (example_fs ls) example_path None = Inr (preamble @ ls)"
  "texts (example_fs ls) example_path = Some (preamble @ ls)"
  "length preamble = 5"
  "drop 5 (preamble @ ls) = ls"
  by (simp_all add: open_file_def open_text_def example_fs_def preamble_def)

lemma collect_example:
  "collect uuid3_name gzip_open hpoa example_path None (example_fs [example_line '''' ''PMID:1'']) =
     Inr ([example_node], [example_edge True ''PMID:1''])"
  by (simp add: collect_def skip_header_def open_example DictReader_example
        phenotype_is_present_example add_row_example set_add_def)

section \<open>The claims\<close>

subsection \<open>C1: the qualifier decides\<close>

text \<open>
  C1. For a row whose \<^verbatim>\<open>Qualifier\<close> field is \<open>q\<close>: the empty string makes the phenotype
  present, and the row is added with presence \<open>True\<close>; \<^verbatim>\<open>NOT\<close> makes it absent, and the
  row is added with presence \<open>False\<close> or skipped, as the flag says; every other value
  (\<^verbatim>\<open>None\<close> of a short line included) raises the \<^verbatim>\<open>ValueError\<close> of line 67, which
  carries the qualifier and the row, whatever the flag is.
\<close>

theorem qualifier_decides:
  assumes "getitem row ''Qualifier'' = Inr q"
  shows "phenotype_is_present row =
           (if q = Some [] then Inr True
            else if q = Some ''NOT'' then Inr False
            else Inl (ValueError_unexpected_qualifier q row))
       \<and> read_loop uuid3 excl (Inr row # rows) nodes edges =
           (if q = Some [] then
              (case add_row uuid3 row True nodes edges of
                 Inl e \<Rightarrow> Inl e
               | Inr (nodes', edges') \<Rightarrow> read_loop uuid3 excl rows nodes' edges')
            else if q = Some ''NOT'' then
              (if excl then
                 (case add_row uuid3 row False nodes edges of
                    Inl e \<Rightarrow> Inl e
                  | Inr (nodes', edges') \<Rightarrow> read_loop uuid3 excl rows nodes' edges')
               else read_loop uuid3 excl rows nodes edges)
            else Inl (ValueError_unexpected_qualifier q row))"
  using assms by (simp add: phenotype_is_present_def)

theorem qualifier_decides_witness:
  "getitem (example_row ''maybe'' ''PMID:1'') ''Qualifier'' = Inr (Some ''maybe'')
   \<and> phenotype_is_present (example_row ''maybe'' ''PMID:1'') =
       Inl (ValueError_unexpected_qualifier (Some ''maybe'') (example_row ''maybe'' ''PMID:1''))
   \<and> read_loop uuid3_name True [Inr (example_row ''maybe'' ''PMID:1'')] [] [] =
       Inl (ValueError_unexpected_qualifier (Some ''maybe'') (example_row ''maybe'' ''PMID:1''))
   \<and> read_loop uuid3_name False [Inr (example_row ''maybe'' ''PMID:1'')] [] [] =
       Inl (ValueError_unexpected_qualifier (Some ''maybe'') (example_row ''maybe'' ''PMID:1''))"
proof -
  have q: "getitem (example_row ''maybe'' ''PMID:1'') ''Qualifier'' = Inr (Some ''maybe'')"
    by (rule getitem_example)
  from qualifier_decides [OF q, of uuid3_name True "[]" "[]" "[]"]
       qualifier_decides [OF q, of uuid3_name False "[]" "[]" "[]"] q
  show ?thesis by simp
qed

subsection \<open>C2: the edge identifier\<close>

text \<open>
  C2. The identifier of an edge is \<^verbatim>\<open>urn:uuid:\<close> followed by the version-3 UUID, in the
  DNS namespace, of the disease, the phenotype and the presence joined by \<^verbatim>\<open>-\<close>, the
  presence being written \<^verbatim>\<open>True\<close> or \<^verbatim>\<open>False\<close>. When the loop returns, every retained
  row (one that is asserted, or negated with the flag set) with disease \<open>d\<close>, phenotype
  \<open>h\<close> and presence \<open>p\<close> has an edge in the edge set with this identifier, and every
  edge of the set carries the identifier so derived from its own subject and object.
  The identifier is a function of the triple: equal triples give equal identifiers.
\<close>

theorem edge_id_is_uuid3_of_triple:
  assumes "read_loop uuid3 excl rows [] [] = Inr (nodes, edges)"
    and "Inr row \<in> set rows" and "phenotype_is_present row = Inr p" and "excl \<or> p"
  shows "edge_id uuid3 (Some d0) (Some h0) b =
           Inr (''urn:uuid:'' @ uuid3 NAMESPACE_DNS
                  (d0 @ ''-'' @ h0 @ ''-'' @ (if b then ''True'' else ''False'')))
       \<and> (\<exists>d h e. getitem row ''DatabaseID'' = Inr (Some d)
           \<and> getitem row ''HPO_ID'' = Inr (Some h)
           \<and> e \<in> set edges \<and> subject e = Some d \<and> object e = Some h
           \<and> id_edge e =
               ''urn:uuid:'' @ uuid3 NAMESPACE_DNS
                 (d @ ''-'' @ h @ ''-'' @ (if p then ''True'' else ''False'')))
       \<and> (\<forall>e \<in> set edges. \<exists>d h p'. subject e = Some d \<and> object e = Some h \<and> (excl \<or> p')
           \<and> id_edge e =
               ''urn:uuid:'' @ uuid3 NAMESPACE_DNS
                 (d @ ''-'' @ h @ ''-'' @ (if p' then ''True'' else ''False'')))"
proof -
  have one: "edge_id uuid3 (Some d0) (Some h0) b =
           Inr (''urn:uuid:'' @ uuid3 NAMESPACE_DNS
                  (d0 @ ''-'' @ h0 @ ''-'' @ (if b then ''True'' else ''False'')))"
    by (simp add: edge_id_Some str_bool_def)
  from read_loop_retained [OF assms]
  obtain n e where a: "add_row uuid3 row p [] [] = Inr ([n], [e])" and e: "e \<in> set edges"
    by blast
  from a [unfolded add_row_Inr] obtain nm d h ref where
    "getitem row ''DiseaseName'' = Inr nm"
    "getitem row ''DatabaseID'' = Inr (Some d)" "getitem row ''HPO_ID'' = Inr (Some h)"
    "[e] = set_add
          \<lparr>id_edge = ''urn:uuid:'' @ uuid3 NAMESPACE_DNS (d @ ''-'' @ h @ ''-'' @ str_bool p),
           subject = Some d, predicate = has_phenotype, object = Some h,
           relation = has_symptom, primary_knowledge_source = provided_by_hpoa,
           category_edge = phenotype_to_disease_association, publications = ref\<rparr> []"
    by blast
  with e have two: "\<exists>d h e. getitem row ''DatabaseID'' = Inr (Some d)
           \<and> getitem row ''HPO_ID'' = Inr (Some h)
           \<and> e \<in> set edges \<and> subject e = Some d \<and> object e = Some h
           \<and> id_edge e =
               ''urn:uuid:'' @ uuid3 NAMESPACE_DNS
                 (d @ ''-'' @ h @ ''-'' @ (if p then ''True'' else ''False''))"
    by (auto simp: set_add_def str_bool_def)
  have three: "\<forall>e \<in> set edges. \<exists>d h p'. subject e = Some d \<and> object e = Some h
           \<and> (excl \<or> p')
           \<and> id_edge e =
               ''urn:uuid:'' @ uuid3 NAMESPACE_DNS
                 (d @ ''-'' @ h @ ''-'' @ (if p' then ''True'' else ''False''))"
    using read_loop_edge_ids [OF assms(1)] unfolding str_bool_def .
  from one two three show ?thesis by blast
qed

theorem edge_id_is_uuid3_of_triple_witness:
  "read_loop uuid3_name True
     [Inr (example_row '''' ''PMID:1''), Inr (example_row ''NOT'' ''PMID:1'')] [] [] =
     Inr ([example_node], [example_edge True ''PMID:1'', example_edge False ''PMID:1''])
   \<and> phenotype_is_present (example_row '''' ''PMID:1'') = Inr True
   \<and> phenotype_is_present (example_row ''NOT'' ''PMID:1'') = Inr False
   \<and> id_edge (example_edge True ''PMID:1'') = ''urn:uuid:OMIM:101600-HP:0001-True''
   \<and> id_edge (example_edge False ''PMID:1'') = ''urn:uuid:OMIM:101600-HP:0001-False''
   \<and> edge_id uuid3_name (Some ''OMIM:101600'') (Some ''HP:0001'') True =
       Inr ''urn:uuid:OMIM:101600-HP:0001-True''
   \<and> edge_id uuid3_name (Some ''OMIM:101600'') (Some ''HP:0001'') False =
       Inr ''urn:uuid:OMIM:101600-HP:0001-False''
   \<and> (\<exists>d h e. getitem (example_row '''' ''PMID:1'') ''DatabaseID'' = Inr (Some d)
         \<and> getitem (example_row '''' ''PMID:1'') ''HPO_ID'' = Inr (Some h)
         \<and> e \<in> set [example_edge True ''PMID:1'', example_edge False ''PMID:1'']
         \<and> subject e = Some d \<and> object e = Some h
         \<and> id_edge e = ''urn:uuid:'' @ uuid3_name NAMESPACE_DNS (d @ ''-'' @ h @ ''-True''))
   \<and> (\<exists>d h e. getitem (example_row ''NOT'' ''PMID:1'') ''DatabaseID'' = Inr (Some d)
         \<and> getitem (example_row ''NOT'' ''PMID:1'') ''HPO_ID'' = Inr (Some h)
         \<and> e \<in> set [example_edge True ''PMID:1'', example_edge False ''PMID:1'']
         \<and> subject e = Some d \<and> object e = Some h
         \<and> id_edge e = ''urn:uuid:'' @ uuid3_name NAMESPACE_DNS (d @ ''-'' @ h @ ''-False''))"
proof -
  have l: "read_loop uuid3_name True
             [Inr (example_row '''' ''PMID:1''), Inr (example_row ''NOT'' ''PMID:1'')] [] [] =
             Inr ([example_node], [example_edge True ''PMID:1'', example_edge False ''PMID:1''])"
    by (rule read_loop_negated_kept)
  have m1: "Inr (example_row '''' ''PMID:1'')
              \<in> set [Inr (example_row '''' ''PMID:1''), Inr (example_row ''NOT'' ''PMID:1'')]"
    and m2: "Inr (example_row ''NOT'' ''PMID:1'')
              \<in> set [Inr (example_row '''' ''PMID:1''), Inr (example_row ''NOT'' ''PMID:1'')]"
    by simp_all
  have p1: "phenotype_is_present (example_row '''' ''PMID:1'') = Inr True"
    and p2: "phenotype_is_present (example_row ''NOT'' ''PMID:1'') = Inr False"
    by (rule phenotype_is_present_example)+
  have k1: "True \<or> True" and k2: "True \<or> False" by simp_all
  have i: "id_edge (example_edge True ''PMID:1'') = ''urn:uuid:OMIM:101600-HP:0001-True''"
    "id_edge (example_edge False ''PMID:1'') = ''urn:uuid:OMIM:101600-HP:0001-False''"
    by (simp_all add: example_edge_def)
  note t1 = edge_id_is_uuid3_of_triple
              [OF l m1 p1 k1, of "''OMIM:101600''" "''HP:0001''" True]
  note t2 = edge_id_is_uuid3_of_triple
              [OF l m2 p2 k2, of "''OMIM:101600''" "''HP:0001''" False]
  have e1: "edge_id uuid3_name (Some ''OMIM:101600'') (Some ''HP:0001'') True =
              Inr ''urn:uuid:OMIM:101600-HP:0001-True''"
    using t1 by (simp add: uuid3_name_def)
  have e2: "edge_id uuid3_name (Some ''OMIM:101600'') (Some ''HP:0001'') False =
              Inr ''urn:uuid:OMIM:101600-HP:0001-False''"
    using t2 by (simp add: uuid3_name_def)
  have x1: "\<exists>d h e. getitem (example_row '''' ''PMID:1'') ''DatabaseID'' = Inr (Some d)
         \<and> getitem (example_row '''' ''PMID:1'') ''HPO_ID'' = Inr (Some h)
         \<and> e \<in> set [example_edge True ''PMID:1'', example_edge False ''PMID:1'']
         \<and> subject e = Some d \<and> object e = Some h
         \<and> id_edge e = ''urn:uuid:'' @ uuid3_name NAMESPACE_DNS (d @ ''-'' @ h @ ''-True'')"
    using conjunct1 [OF conjunct2 [OF t1]] by simp
  have x2: "\<exists>d h e. getitem (example_row ''NOT'' ''PMID:1'') ''DatabaseID'' = Inr (Some d)
         \<and> getitem (example_row ''NOT'' ''PMID:1'') ''HPO_ID'' = Inr (Some h)
         \<and> e \<in> set [example_edge True ''PMID:1'', example_edge False ''PMID:1'']
         \<and> subject e = Some d \<and> object e = Some h
         \<and> id_edge e = ''urn:uuid:'' @ uuid3_name NAMESPACE_DNS (d @ ''-'' @ h @ ''-False'')"
    using conjunct1 [OF conjunct2 [OF t2]] by simp
  from l p1 p2 i e1 e2 x1 x2 show ?thesis by (intro conjI)
qed

subsection \<open>C3: negated rows\<close>

text \<open>
  C3. The flag is \<open>False\<close> after construction. With the flag \<open>False\<close> a negated row
  (qualifier \<^verbatim>\<open>NOT\<close>) is skipped: the loop goes on with the sets unchanged and raises
  nothing, and a file whose only row after the preamble is negated gives a node table
  and an edge table that hold their header only. With the flag \<open>True\<close> the row goes
  through \<open>add_row\<close> as an asserted row does, with presence \<open>False\<close>; its node is the
  one it would have as an asserted row, and its edge differs in the identifier only.
\<close>

theorem negated_rows_dropped_by_default:
  assumes neg: "phenotype_is_present row = Inr False"
    and opened: "open_file gzip_open fs data_file compression = Inr fh" "5 \<le> length fh"
      "DictReader (drop 5 fh) (file_header self) = [Inr row]"
    and flag: "\<not> add_excluded_phenotype self"
  shows "\<not> add_excluded_phenotype (init input_base output)
     \<and> read_loop uuid3 False (Inr row # rows) nodes edges = read_loop uuid3 False rows nodes edges
     \<and> parse uuid3 gzip_open self data_file compression fs =
         (None, fs\<lparr>tables := (tables fs)
                   (nodes_out_path self \<mapsto> [[''id'', ''category'', ''name'', ''provided_by'']],
                    edges_out_path self \<mapsto>
                      [[''subject'', ''predicate'', ''object'', ''relation'', ''provided_by'',
                        '''']])\<rparr>)
     \<and> read_loop uuid3 True (Inr row # rows) nodes edges =
         (case add_row uuid3 row False nodes edges of
            Inl e \<Rightarrow> Inl e
          | Inr (nodes', edges') \<Rightarrow> read_loop uuid3 True rows nodes' edges')
     \<and> (\<forall>n e. add_row uuid3 row False [] [] = Inr ([n], [e]) \<longrightarrow>
           (\<exists>i. add_row uuid3 row True [] [] = Inr ([n], [e\<lparr>id_edge := i\<rparr>])))"
proof -
  from neg opened flag
  have "collect uuid3 gzip_open self data_file compression fs = Inr ([], [])"
    by (simp add: collect_def skip_header_def)
  then have "parse uuid3 gzip_open self data_file compression fs =
         (None, fs\<lparr>tables := (tables fs)
                   (nodes_out_path self \<mapsto> [[''id'', ''category'', ''name'', ''provided_by'']],
                    edges_out_path self \<mapsto>
                      [[''subject'', ''predicate'', ''object'', ''relation'', ''provided_by'',
                        '''']])\<rparr>)"
    by (simp add: parse_collect write_edges_def write_nodes_def write_table_def
          node_tsv_column_names_def edge_tsv_column_names_def)
  with neg add_row_presence show ?thesis
    by (simp add: init_def)
qed

theorem negated_rows_dropped_by_default_witness:
  "phenotype_is_present (example_row ''NOT'' ''PMID:1'') = Inr False
   \<and> open_file gzip_open_binary (example_fs [example_line ''NOT'' ''PMID:1'']) example_path None =
       Inr (preamble @ [example_line ''NOT'' ''PMID:1''])
   \<and> DictReader (drop 5 (preamble @ [example_line ''NOT'' ''PMID:1''])) (file_header hpoa) =
       [Inr (example_row ''NOT'' ''PMID:1'')]
   \<and> \<not> add_excluded_phenotype hpoa
   \<and> read_loop uuid3_name False [Inr (example_row ''NOT'' ''PMID:1'')] [] [] = Inr ([], [])
   \<and> parse uuid3_name gzip_open_binary hpoa example_path None
         (example_fs [example_line ''NOT'' ''PMID:1'']) =
       (None, (example_fs [example_line ''NOT'' ''PMID:1''])
          \<lparr>tables := (tables (example_fs [example_line ''NOT'' ''PMID:1'']))
             (nodes_out_path hpoa \<mapsto> [[''id'', ''category'', ''name'', ''provided_by'']],
              edges_out_path hpoa \<mapsto>
                [[''subject'', ''predicate'', ''object'', ''relation'', ''provided_by'',
                  '''']])\<rparr>)
   \<and> read_loop uuid3_name True [Inr (example_row ''NOT'' ''PMID:1'')] [] [] =
       Inr ([example_node], [example_edge False ''PMID:1''])"
proof -
  have n: "phenotype_is_present (example_row ''NOT'' ''PMID:1'') = Inr False"
    by (rule phenotype_is_present_example)
  have f: "open_file gzip_open_binary (example_fs [example_line ''NOT'' ''PMID:1''])
             example_path None = Inr (preamble @ [example_line ''NOT'' ''PMID:1''])"
    by (rule open_example)
  have g: "5 \<le> length (preamble @ [example_line ''NOT'' ''PMID:1''])"
    by (simp add: open_example)
  have d: "DictReader (drop 5 (preamble @ [example_line ''NOT'' ''PMID:1'']))
             (file_header hpoa) = [Inr (example_row ''NOT'' ''PMID:1'')]"
    by (simp add: open_example DictReader_example)
  have x: "\<not> add_excluded_phenotype hpoa"
    by (simp add: hpoa_def init_def)
  from negated_rows_dropped_by_default
         [OF n f g d x, of "''data/raw''" "''data/transformed/HPOA''" uuid3_name "[]" "[]" "[]"]
       n f d x
  show ?thesis by (simp add: add_row_example set_add_def)
qed

subsection \<open>C4: the subject of an edge is a node\<close>

text \<open>
  C4. When the read phase returns, every edge of the edge set has a subject that is the
  identifier of some node of the node set: a row puts its node and its edge into the
  sets in the same iteration.
\<close>

theorem edge_subject_has_node:
  assumes "collect uuid3 gzip_open self data_file compression fs = Inr (nodes, edges)"
  shows "\<forall>e \<in> set edges. \<exists>n \<in> set nodes. id_node n = subject e"
proof -
  from assms obtain rows where
    loop: "read_loop uuid3 (add_excluded_phenotype self) rows [] [] = Inr (nodes, edges)"
    unfolding collect_Inr by blast
  show ?thesis
    by (rule read_loop_invariant
          [OF loop, where P = "\<lambda>ns es. \<forall>e \<in> set es. \<exists>n \<in> set ns. id_node n = subject e"])
       (auto simp: add_row_Inr)
qed

theorem edge_subject_has_node_witness:
  "collect uuid3_name gzip_open_binary hpoa example_path None
     (example_fs [example_line '''' ''PMID:1'']) =
     Inr ([example_node], [example_edge True ''PMID:1''])
   \<and> (\<exists>n \<in> set [example_node]. id_node n = subject (example_edge True ''PMID:1''))"
proof -
  have c: "collect uuid3_name gzip_open_binary hpoa example_path None
             (example_fs [example_line '''' ''PMID:1'']) =
             Inr ([example_node], [example_edge True ''PMID:1''])"
    by (rule collect_example)
  from edge_subject_has_node [OF c] c show ?thesis by simp
qed

subsection \<open>C5: the columns of the two tables\<close>

text \<open>
  C5. When the read phase returns, \<^verbatim>\<open>parse\<close> raises nothing and writes two tables. The
  node table has the header \<^verbatim>\<open>id, category, name, provided_by\<close> and, in some order,
  one record of these four fields for each node. The edge table has the header
  \<^verbatim>\<open>subject, predicate, object, relation, provided_by\<close> followed by a column with the
  empty name and, in some order, one record for each edge: its subject, predicate,
  object, relation and \<^verbatim>\<open>primary_knowledge_source\<close>, and the empty string. The
  identifier, the category and the publications of an edge are in no column.
\<close>

theorem written_columns:
  assumes "collect uuid3 gzip_open self data_file compression fs = Inr (nodes, edges)"
  shows "\<exists>fs' ndata edata.
       parse uuid3 gzip_open self data_file compression fs = (None, fs')
     \<and> tables fs' (nodes_out_path self) =
         Some ([''id'', ''category'', ''name'', ''provided_by''] # ndata)
     \<and> mset ndata =
         mset (map (\<lambda>n. [render (id_node n), category_node n, render (name n), provided_by n])
                 nodes)
     \<and> tables fs' (edges_out_path self) =
         Some ([''subject'', ''predicate'', ''object'', ''relation'', ''provided_by'', '''']
               # edata)
     \<and> mset edata =
         mset (map (\<lambda>e. [render (subject e), predicate e, render (object e), relation e,
                           primary_knowledge_source e, ''''])
                 edges)"
proof -
  let ?fs = "write_edges self edges (write_nodes self nodes fs)"
  let ?ndata = "map (\<lambda>n. [render (id_node n), category_node n, render (name n), provided_by n])
                  nodes"
  let ?edata = "map (\<lambda>e. [render (subject e), predicate e, render (object e), relation e,
                           primary_knowledge_source e, ''''])
                  edges"
  from assms have "parse uuid3 gzip_open self data_file compression fs = (None, ?fs)"
    by (simp add: parse_collect)
  moreover have "tables ?fs (nodes_out_path self) =
      Some ([''id'', ''category'', ''name'', ''provided_by''] # ?ndata)"
    by (simp add: tables_written dict_to_list_node_row) (simp add: node_tsv_column_names_def)
  moreover have "tables ?fs (edges_out_path self) =
      Some ([''subject'', ''predicate'', ''object'', ''relation'', ''provided_by'', '''']
            # ?edata)"
    by (simp add: tables_written dict_to_list_edge_row) (simp add: edge_tsv_column_names_def)
  ultimately show ?thesis by blast
qed

theorem written_columns_witness:
  "collect uuid3_name gzip_open_binary hpoa example_path None
     (example_fs [example_line '''' ''PMID:1'']) =
     Inr ([example_node], [example_edge True ''PMID:1''])
   \<and> (\<exists>fs' ndata edata.
          parse uuid3_name gzip_open_binary hpoa example_path None
            (example_fs [example_line '''' ''PMID:1'']) = (None, fs')
        \<and> tables fs' (nodes_out_path hpoa) =
            Some ([''id'', ''category'', ''name'', ''provided_by''] # ndata)
        \<and> mset ndata =
            {#[''OMIM:101600'', ''biolink:Disease'', ''DiseaseX'', ''HPO:hpoa'']#}
        \<and> tables fs' (edges_out_path hpoa) =
            Some ([''subject'', ''predicate'', ''object'', ''relation'', ''provided_by'', '''']
                  # edata)
        \<and> mset edata =
            {#[''OMIM:101600'', ''biolink:has_phenotype'', ''HP:0001'', ''RO:0002200'',
               ''HPO:hpoa'', '''']#})"
proof -
  have c: "collect uuid3_name gzip_open_binary hpoa example_path None
             (example_fs [example_line '''' ''PMID:1'']) =
             Inr ([example_node], [example_edge True ''PMID:1''])"
    by (rule collect_example)
  from written_columns [OF c] c show ?thesis
    by (simp add: example_node_def example_edge_def render_def)
qed

subsection \<open>C6: one asserted row, end to end\<close>

text \<open>
  C6. The input file holds five preamble lines, whatever they are, and one line that
  the csv reader splits into the fields \<^verbatim>\<open>OMIM:101600\<close>, \<^verbatim>\<open>DiseaseX\<close>, the empty
  qualifier, \<^verbatim>\<open>HP:0001\<close>, \<^verbatim>\<open>PMID:1\<close> and any further fields. Then \<^verbatim>\<open>parse\<close> with no
  compression raises nothing, the node table is its header and the record
  \<^verbatim>\<open>OMIM:101600, biolink:Disease, DiseaseX, HPO:hpoa\<close>, and the edge table is its header
  and the record \<^verbatim>\<open>OMIM:101600, biolink:has_phenotype, HP:0001, RO:0002200, HPO:hpoa\<close>
  with an empty last column. No other file is touched.
\<close>

theorem end_to_end_one_asserted_row:
  assumes "texts fs data_file = Some (lines5 @ [line])" and "length lines5 = 5"
    and "csv_reader [line] =
           [Inr (''OMIM:101600'' # ''DiseaseX'' # '''' # ''HP:0001'' # ''PMID:1'' # rest)]"
    and "file_header self = file_header (init input_base output)"
  shows "parse uuid3 gzip_open self data_file None fs =
     (None, fs\<lparr>tables := (tables fs)
        (nodes_out_path self \<mapsto>
           [[''id'', ''category'', ''name'', ''provided_by''],
            [''OMIM:101600'', ''biolink:Disease'', ''DiseaseX'', ''HPO:hpoa'']],
         edges_out_path self \<mapsto>
           [[''subject'', ''predicate'', ''object'', ''relation'', ''provided_by'', ''''],
            [''OMIM:101600'', ''biolink:has_phenotype'', ''HP:0001'', ''RO:0002200'',
             ''HPO:hpoa'', '''']])\<rparr>)"
proof -
  let ?row = "to_row (file_header self)
                (''OMIM:101600'' # ''DiseaseX'' # '''' # ''HP:0001'' # ''PMID:1'' # rest)"
  have rows: "DictReader (drop 5 (lines5 @ [line])) (file_header self) = [Inr ?row]"
    using assms(2,3) by (simp add: DictReader_def)
  have present: "phenotype_is_present ?row = Inr True"
    by (simp add: phenotype_is_present_def getitem_first5 [OF assms(4)])
  have "add_row uuid3 ?row True [] [] =
      Inr ([\<lparr>id_node = Some ''OMIM:101600'', category_node = category,
              name = Some ''DiseaseX'', provided_by = provided_by_hpoa\<rparr>],
           [\<lparr>id_edge = ''urn:uuid:'' @ uuid3 NAMESPACE_DNS
                         (''OMIM:101600'' @ ''-'' @ ''HP:0001'' @ ''-'' @ str_bool True),
             subject = Some ''OMIM:101600'', predicate = has_phenotype,
             object = Some ''HP:0001'', relation = has_symptom,
             primary_knowledge_source = provided_by_hpoa,
             category_edge = phenotype_to_disease_association,
             publications = Some ''PMID:1''\<rparr>])"
    unfolding add_row_Inr by (simp add: getitem_first5 [OF assms(4)] set_add_def)
  with present rows assms(1,2)
  have "collect uuid3 gzip_open self data_file None fs =
      Inr ([\<lparr>id_node = Some ''OMIM:101600'', category_node = category,
              name = Some ''DiseaseX'', provided_by = provided_by_hpoa\<rparr>],
           [\<lparr>id_edge = ''urn:uuid:'' @ uuid3 NAMESPACE_DNS
                         (''OMIM:101600'' @ ''-'' @ ''HP:0001'' @ ''-'' @ str_bool True),
             subject = Some ''OMIM:101600'', predicate = has_phenotype,
             object = Some ''HP:0001'', relation = has_symptom,
             primary_knowledge_source = provided_by_hpoa,
             category_edge = phenotype_to_disease_association,
             publications = Some ''PMID:1''\<rparr>])"
    by (simp add: collect_def open_file_def open_text_def skip_header_def)
  then show ?thesis
    by (simp add: parse_collect write_edges_def write_nodes_def write_table_def
          dict_to_list_node_row dict_to_list_edge_row render_def)
       (simp add: node_tsv_column_names_def edge_tsv_column_names_def category_def
          provided_by_hpoa_def has_phenotype_def has_symptom_def)
qed

theorem end_to_end_one_asserted_row_witness:
  "texts (example_fs [example_line '''' ''PMID:1'']) example_path =
     Some (preamble @ [example_line '''' ''PMID:1''])
   \<and> length preamble = 5
   \<and> csv_reader [example_line '''' ''PMID:1''] =
       [Inr (''OMIM:101600'' # ''DiseaseX'' # '''' # ''HP:0001'' # ''PMID:1'' #
             [''TAS'', '''', '''', '''', '''', ''P'', ''HPO:probinson[2020-01-01]''])]
   \<and> parse uuid3_name gzip_open_binary hpoa example_path None
         (example_fs [example_line '''' ''PMID:1'']) =
       (None, (example_fs [example_line '''' ''PMID:1''])
          \<lparr>tables := (tables (example_fs [example_line '''' ''PMID:1'']))
             (nodes_out_path hpoa \<mapsto>
                [[''id'', ''category'', ''name'', ''provided_by''],
                 [''OMIM:101600'', ''biolink:Disease'', ''DiseaseX'', ''HPO:hpoa'']],
              edges_out_path hpoa \<mapsto>
                [[''subject'', ''predicate'', ''object'', ''relation'', ''provided_by'', ''''],
                 [''OMIM:101600'', ''biolink:has_phenotype'', ''HP:0001'', ''RO:0002200'',
                  ''HPO:hpoa'', '''']])\<rparr>)"
proof -
  have t: "texts (example_fs [example_line '''' ''PMID:1'']) example_path =
             Some (preamble @ [example_line '''' ''PMID:1''])"
    by (rule open_example)
  have l: "length preamble = 5"
    by (rule open_example)
  have r: "csv_reader [example_line '''' ''PMID:1''] =
       [Inr (''OMIM:101600'' # ''DiseaseX'' # '''' # ''HP:0001'' # ''PMID:1'' #
             [''TAS'', '''', '''', '''', '''', ''P'', ''HPO:probinson[2020-01-01]''])]"
    by (simp add: csv_reader_asserted example_fields_def)
  have h: "file_header hpoa = file_header (init ''data/raw'' ''data/transformed/HPOA'')"
    by (simp add: hpoa_def)
  from end_to_end_one_asserted_row [OF t l r h, of uuid3_name gzip_open_binary] t l r
  show ?thesis by blast
qed

subsection \<open>C7: compression tags\<close>




subsection \<open>C8: insertion into the sets\<close>

text \<open>
  C8. Adding an element puts it into the set and keeps every element that was there;
  adding an element that the set holds already, wherever it came from, leaves the set
  as it is and raises nothing; a set without duplicates stays so. When the loop
  returns, no node and no edge is in its set twice, every retained row has its node
  and its edge in the sets, and reading every row a second time leaves the two sets as
  they are: rows that give the same node or the same edge give one element. A second
  run on the same input builds the sets that the first run built. (The file system of
  the model keeps the files read apart from the tables written, so the second run is
  faithful only when the input is not one of the two output files, which is assumed.)
\<close>

theorem insertion_idempotent:
  assumes "read_loop uuid3 excl rows [] [] = Inr (nodes, edges)"
    and "data_file \<noteq> nodes_out_path self" and "data_file \<noteq> edges_out_path self"
  shows "set (set_add x s) = insert x (set s)
       \<and> (x \<in> set s \<longrightarrow> set_add x s = s)
       \<and> (x \<notin> set s \<longrightarrow> set_add x s = s @ [x])
       \<and> set_add x (set_add x s) = set_add x s
       \<and> (distinct s \<longrightarrow> distinct (set_add x s))
       \<and> distinct nodes \<and> distinct edges
       \<and> (\<forall>row p. Inr row \<in> set rows \<and> phenotype_is_present row = Inr p \<and> (excl \<or> p) \<longrightarrow>
             (\<exists>n e. add_row uuid3 row p [] [] = Inr ([n], [e])
                \<and> n \<in> set nodes \<and> e \<in> set edges
                \<and> count_list nodes n = 1 \<and> count_list edges e = 1))
       \<and> read_loop uuid3 excl (rows @ rows) [] [] = Inr (nodes, edges)
       \<and> collect uuid3 gzip_open self data_file compression
           (snd (parse uuid3 gzip_open self data_file compression fs)) =
         collect uuid3 gzip_open self data_file compression fs"
proof -
  have adds: "set (set_add x s) = insert x (set s)"
    "x \<in> set s \<longrightarrow> set_add x s = s" "x \<notin> set s \<longrightarrow> set_add x s = s @ [x]"
    "set_add x (set_add x s) = set_add x s" "distinct s \<longrightarrow> distinct (set_add x s)"
    by (auto simp: set_add_def)
  have dist: "distinct nodes" "distinct edges"
    using read_loop_distinct [OF assms(1)] by simp_all
  have kept: "\<forall>row p. Inr row \<in> set rows \<and> phenotype_is_present row = Inr p \<and> (excl \<or> p) \<longrightarrow>
             (\<exists>n e. add_row uuid3 row p [] [] = Inr ([n], [e])
                \<and> n \<in> set nodes \<and> e \<in> set edges
                \<and> count_list nodes n = 1 \<and> count_list edges e = 1)"
  proof (intro allI impI)
    fix row p
    assume r: "Inr row \<in> set rows \<and> phenotype_is_present row = Inr p \<and> (excl \<or> p)"
    then have "Inr row \<in> set rows" "phenotype_is_present row = Inr p" "excl \<or> p"
      by simp_all
    from read_loop_retained [OF assms(1) this]
    obtain n e where "add_row uuid3 row p [] [] = Inr ([n], [e])"
      and "n \<in> set nodes" and "e \<in> set edges" by blast
    moreover from this dist have "count_list nodes n = 1" "count_list edges e = 1"
      by (simp_all add: count_list_distinct)
    ultimately show "\<exists>n e. add_row uuid3 row p [] [] = Inr ([n], [e])
                \<and> n \<in> set nodes \<and> e \<in> set edges
                \<and> count_list nodes n = 1 \<and> count_list edges e = 1"
      by blast
  qed
  have again: "read_loop uuid3 excl (rows @ rows) [] [] = Inr (nodes, edges)"
    using assms(1) read_loop_absorbed [OF assms(1), of nodes edges]
    by (simp add: read_loop_append)
  have rerun: "collect uuid3 gzip_open self data_file compression
           (snd (parse uuid3 gzip_open self data_file compression fs)) =
         collect uuid3 gzip_open self data_file compression fs"
  proof (cases "collect uuid3 gzip_open self data_file compression fs")
    case (Inl e)
    then show ?thesis by (simp add: parse_collect)
  next
    case (Inr r)
    obtain ns es where r: "r = (ns, es)" by (cases r)
    have "collect uuid3 gzip_open self data_file compression
            (write_edges self es (write_nodes self ns fs)) =
          collect uuid3 gzip_open self data_file compression fs"
      by (simp add: collect_def open_file_written)
    with Inr r show ?thesis by (simp add: parse_collect)
  qed
  from adds dist kept again rerun show ?thesis by (intro conjI)
qed

theorem insertion_idempotent_witness:
  "read_loop uuid3_name False
     [Inr (example_row '''' ''PMID:1''), Inr other_row, Inr (example_row '''' ''PMID:1'')]
     [] [] =
     Inr ([example_node, other_node], [example_edge True ''PMID:1'', other_edge])
   \<and> example_path \<noteq> nodes_out_path hpoa \<and> example_path \<noteq> edges_out_path hpoa
   \<and> example_node \<noteq> other_node
   \<and> example_node \<in> set [example_node, other_node]
   \<and> set_add example_node [example_node, other_node] = [example_node, other_node]
   \<and> set (set_add example_node [example_node, other_node]) = {example_node, other_node}
   \<and> set_add other_node [example_node] = [example_node, other_node]
   \<and> distinct [example_node, other_node]
   \<and> distinct [example_edge True ''PMID:1'', other_edge]
   \<and> count_list [example_node, other_node] example_node = 1
   \<and> count_list [example_edge True ''PMID:1'', other_edge] (example_edge True ''PMID:1'') = 1
   \<and> read_loop uuid3_name False
       ([Inr (example_row '''' ''PMID:1''), Inr other_row, Inr (example_row '''' ''PMID:1'')] @
        [Inr (example_row '''' ''PMID:1''), Inr other_row, Inr (example_row '''' ''PMID:1'')])
       [] [] =
       Inr ([example_node, other_node], [example_edge True ''PMID:1'', other_edge])
   \<and> collect uuid3_name gzip_open_binary hpoa example_path None
         (snd (parse uuid3_name gzip_open_binary hpoa example_path None
                 (example_fs [example_line '''' ''PMID:1'']))) =
       Inr ([example_node], [example_edge True ''PMID:1''])"
proof -
  have l: "read_loop uuid3_name False
             [Inr (example_row '''' ''PMID:1''), Inr other_row,
              Inr (example_row '''' ''PMID:1'')] [] [] =
             Inr ([example_node, other_node], [example_edge True ''PMID:1'', other_edge])"
    by (rule read_loop_earlier_row_again)
  have a: "example_path \<noteq> nodes_out_path hpoa"
    and b: "example_path \<noteq> edges_out_path hpoa"
    by (simp_all add: example_path_def nodes_out_path_def edges_out_path_def hpoa_def init_def
          path_join_def)
  have d: "example_node \<noteq> other_node"
    by (rule example_other_differ)
  note t1 = insertion_idempotent
              [OF l a b, of example_node "[example_node, other_node]" gzip_open_binary None
                 "example_fs [example_line '''' ''PMID:1'']"]
  note t2 = insertion_idempotent
              [OF l a b, of other_node "[example_node]" gzip_open_binary None
                 "example_fs [example_line '''' ''PMID:1'']"]
  have m: "example_node \<in> set [example_node, other_node]" by simp
  have s1: "set_add example_node [example_node, other_node] = [example_node, other_node]"
    using t1 m by blast
  have s2: "set (set_add example_node [example_node, other_node]) = {example_node, other_node}"
    using t1 by auto
  have s3: "set_add other_node [example_node] = [example_node, other_node]"
    using t2 d by simp
  have ds: "distinct [example_node, other_node]"
    "distinct [example_edge True ''PMID:1'', other_edge]"
    using t1 by blast+
  have p: "phenotype_is_present (example_row '''' ''PMID:1'') = Inr True"
    by (rule phenotype_is_present_example)
  have c: "count_list [example_node, other_node] example_node = 1"
    "count_list [example_edge True ''PMID:1'', other_edge] (example_edge True ''PMID:1'') = 1"
    by (simp_all add: example_other_differ example_other_differ [symmetric])
  have r: "read_loop uuid3_name False
       ([Inr (example_row '''' ''PMID:1''), Inr other_row, Inr (example_row '''' ''PMID:1'')] @
        [Inr (example_row '''' ''PMID:1''), Inr other_row, Inr (example_row '''' ''PMID:1'')])
       [] [] =
       Inr ([example_node, other_node], [example_edge True ''PMID:1'', other_edge])"
    using t1 by blast
  have k: "collect uuid3_name gzip_open_binary hpoa example_path None
         (snd (parse uuid3_name gzip_open_binary hpoa example_path None
                 (example_fs [example_line '''' ''PMID:1'']))) =
       Inr ([example_node], [example_edge True ''PMID:1''])"
    using t1 by (simp add: collect_example)
  from l a b d m s1 s2 s3 ds c r k show ?thesis by (intro conjI)
qed

subsection \<open>C9: a malformed qualifier and the output files\<close>

text \<open>
  C9. The file is opened and has its five preamble lines. If some row that the reader
  yields has a qualifier that is neither empty nor \<^verbatim>\<open>NOT\<close>, then \<^verbatim>\<open>parse\<close> raises, and
  the file system is as it was before: neither table is created or written. The
  writes come after the loop, and the loop does not return.
\<close>

theorem malformed_qualifier_writes_nothing:
  assumes "open_file gzip_open fs data_file compression = Inr fh" and "5 \<le> length fh"
    and "Inr row \<in> set (DictReader (drop 5 fh) (file_header self))"
    and "getitem row ''Qualifier'' = Inr q" and "q \<noteq> Some []" and "q \<noteq> Some ''NOT''"
  shows "\<exists>e. parse uuid3 gzip_open self data_file compression fs = (Some e, fs)"
proof -
  from read_loop_malformed [OF assms(3-6)] obtain e where
    "read_loop uuid3 (add_excluded_phenotype self)
       (DictReader (drop 5 fh) (file_header self)) [] [] = Inl e" by blast
  with assms(1,2) have "collect uuid3 gzip_open self data_file compression fs = Inl e"
    by (simp add: collect_def skip_header_def)
  then show ?thesis by (simp add: parse_collect)
qed

theorem malformed_qualifier_writes_nothing_witness:
  "open_file gzip_open_binary (example_fs [example_line ''maybe'' ''PMID:1'']) example_path None =
     Inr (preamble @ [example_line ''maybe'' ''PMID:1''])
   \<and> Inr (example_row ''maybe'' ''PMID:1'')
       \<in> set (DictReader (drop 5 (preamble @ [example_line ''maybe'' ''PMID:1'']))
                (file_header hpoa))
   \<and> getitem (example_row ''maybe'' ''PMID:1'') ''Qualifier'' = Inr (Some ''maybe'')
   \<and> (\<exists>e. parse uuid3_name gzip_open_binary hpoa example_path None
              (example_fs [example_line ''maybe'' ''PMID:1'']) =
            (Some e, example_fs [example_line ''maybe'' ''PMID:1'']))
   \<and> tables (example_fs [example_line ''maybe'' ''PMID:1'']) = Map.empty"
proof -
  have f: "open_file gzip_open_binary (example_fs [example_line ''maybe'' ''PMID:1''])
             example_path None = Inr (preamble @ [example_line ''maybe'' ''PMID:1''])"
    by (rule open_example)
  have g: "5 \<le> length (preamble @ [example_line ''maybe'' ''PMID:1''])"
    by (simp add: open_example)
  have m: "Inr (example_row ''maybe'' ''PMID:1'')
       \<in> set (DictReader (drop 5 (preamble @ [example_line ''maybe'' ''PMID:1'']))
                (file_header hpoa))"
    by (simp add: open_example DictReader_example)
  have q: "getitem (example_row ''maybe'' ''PMID:1'') ''Qualifier'' = Inr (Some ''maybe'')"
    by (rule getitem_example)
  have n1: "Some ''maybe'' \<noteq> Some []" and n2: "Some ''maybe'' \<noteq> Some ''NOT''"
    by simp_all
  have t: "tables (example_fs [example_line ''maybe'' ''PMID:1'']) = Map.empty"
    by (simp add: example_fs_def)
  from malformed_qualifier_writes_nothing [OF f g m q n1 n2, of uuid3_name] f m q t
  show ?thesis by blast
qed

subsection \<open>C10: rows that differ in the reference\<close>

text \<open>
  C10. Two retained rows of the same disease, phenotype and presence whose references
  differ give two different edges in the edge set, which differ in their publications,
  and the same record in the edge table: the data records of the table, one for each
  edge, are then not all different.
\<close>

theorem references_give_duplicate_rows:
  assumes loop: "read_loop uuid3 excl rows [] [] = Inr (nodes, edges)"
    and r1: "Inr r1 \<in> set rows" "phenotype_is_present r1 = Inr p"
    and r2: "Inr r2 \<in> set rows" "phenotype_is_present r2 = Inr p"
    and kept: "excl \<or> p"
    and same: "getitem r1 ''DatabaseID'' = getitem r2 ''DatabaseID''"
              "getitem r1 ''HPO_ID'' = getitem r2 ''HPO_ID''"
    and differ: "getitem r1 ''Reference'' \<noteq> getitem r2 ''Reference''"
  shows "(\<exists>e1 e2. e1 \<in> set edges \<and> e2 \<in> set edges \<and> e1 \<noteq> e2
            \<and> publications e1 \<noteq> publications e2
            \<and> dict_to_list edge_tsv_column_names (edge_row e1) =
                dict_to_list edge_tsv_column_names (edge_row e2))
       \<and> (\<exists>data. tables (write_edges self edges fs) (edges_out_path self) =
                     Some (edge_tsv_column_names # data)
                 \<and> length data = length edges \<and> \<not> distinct data)"
proof -
  from read_loop_retained [OF loop r1 kept]
  obtain n1 e1 where a1: "add_row uuid3 r1 p [] [] = Inr ([n1], [e1])" and m1: "e1 \<in> set edges"
    by blast
  from read_loop_retained [OF loop r2 kept]
  obtain n2 e2 where a2: "add_row uuid3 r2 p [] [] = Inr ([n2], [e2])" and m2: "e2 \<in> set edges"
    by blast
  from a1 [unfolded add_row_Inr] obtain nm1 d1 h1 ref1 where
    g1: "getitem r1 ''DiseaseName'' = Inr nm1" "getitem r1 ''DatabaseID'' = Inr (Some d1)"
      "getitem r1 ''HPO_ID'' = Inr (Some h1)" "getitem r1 ''Reference'' = Inr ref1"
    and e1: "[e1] = set_add
          \<lparr>id_edge = ''urn:uuid:'' @ uuid3 NAMESPACE_DNS (d1 @ ''-'' @ h1 @ ''-'' @ str_bool p),
           subject = Some d1, predicate = has_phenotype, object = Some h1,
           relation = has_symptom, primary_knowledge_source = provided_by_hpoa,
           category_edge = phenotype_to_disease_association, publications = ref1\<rparr> []"
    by blast
  from a2 [unfolded add_row_Inr] obtain nm2 d2 h2 ref2 where
    g2: "getitem r2 ''DiseaseName'' = Inr nm2" "getitem r2 ''DatabaseID'' = Inr (Some d2)"
      "getitem r2 ''HPO_ID'' = Inr (Some h2)" "getitem r2 ''Reference'' = Inr ref2"
    and e2: "[e2] = set_add
          \<lparr>id_edge = ''urn:uuid:'' @ uuid3 NAMESPACE_DNS (d2 @ ''-'' @ h2 @ ''-'' @ str_bool p),
           subject = Some d2, predicate = has_phenotype, object = Some h2,
           relation = has_symptom, primary_knowledge_source = provided_by_hpoa,
           category_edge = phenotype_to_disease_association, publications = ref2\<rparr> []"
    by blast
  from g1 g2 same differ have eq: "d1 = d2" "h1 = h2" and ne: "ref1 \<noteq> ref2" by simp_all
  from e1 e2 eq ne have pub: "publications e1 \<noteq> publications e2"
    and rec: "dict_to_list edge_tsv_column_names (edge_row e1) =
              dict_to_list edge_tsv_column_names (edge_row e2)"
    by (auto simp: set_add_def dict_to_list_edge_row)
  from pub have neq: "e1 \<noteq> e2" by auto
  let ?data = "map (\<lambda>e. dict_to_list edge_tsv_column_names (edge_row e)) edges"
  have "\<not> distinct ?data"
    using m1 m2 neq rec by (rule not_distinct_map)
  moreover have "tables (write_edges self edges fs) (edges_out_path self) =
                   Some (edge_tsv_column_names # ?data)"
    by (simp add: write_edges_def write_table_def comp_def)
  ultimately have "\<exists>data. tables (write_edges self edges fs) (edges_out_path self) =
                     Some (edge_tsv_column_names # data)
                 \<and> length data = length edges \<and> \<not> distinct data"
    by (intro exI [of _ ?data]) simp
  with m1 m2 neq pub rec show ?thesis by blast
qed

theorem references_give_duplicate_rows_witness:
  "read_loop uuid3_name False
     [Inr (example_row '''' ''PMID:1''), Inr (example_row '''' ''PMID:2'')] [] [] =
     Inr ([example_node], [example_edge True ''PMID:1'', example_edge True ''PMID:2''])
   \<and> getitem (example_row '''' ''PMID:1'') ''Reference'' \<noteq>
       getitem (example_row '''' ''PMID:2'') ''Reference''
   \<and> example_edge True ''PMID:1'' \<noteq> example_edge True ''PMID:2''
   \<and> tables (write_edges hpoa [example_edge True ''PMID:1'', example_edge True ''PMID:2'']
               (example_fs [])) (edges_out_path hpoa) =
       Some [[''subject'', ''predicate'', ''object'', ''relation'', ''provided_by'', ''''],
             [''OMIM:101600'', ''biolink:has_phenotype'', ''HP:0001'', ''RO:0002200'',
              ''HPO:hpoa'', ''''],
             [''OMIM:101600'', ''biolink:has_phenotype'', ''HP:0001'', ''RO:0002200'',
              ''HPO:hpoa'', '''']]
   \<and> (\<exists>data. tables (write_edges hpoa
                        [example_edge True ''PMID:1'', example_edge True ''PMID:2'']
                        (example_fs [])) (edges_out_path hpoa) =
                Some (edge_tsv_column_names # data)
             \<and> length data = length [example_edge True ''PMID:1'', example_edge True ''PMID:2'']
             \<and> \<not> distinct data)"
proof -
  have l: "read_loop uuid3_name False
             [Inr (example_row '''' ''PMID:1''), Inr (example_row '''' ''PMID:2'')] [] [] =
             Inr ([example_node], [example_edge True ''PMID:1'', example_edge True ''PMID:2''])"
    by (rule read_loop_example)
  have m1: "Inr (example_row '''' ''PMID:1'')
              \<in> set [Inr (example_row '''' ''PMID:1''), Inr (example_row '''' ''PMID:2'')]"
    and m2: "Inr (example_row '''' ''PMID:2'')
              \<in> set [Inr (example_row '''' ''PMID:1''), Inr (example_row '''' ''PMID:2'')]"
    by simp_all
  have p1: "phenotype_is_present (example_row '''' ''PMID:1'') = Inr True"
    and p2: "phenotype_is_present (example_row '''' ''PMID:2'') = Inr True"
    by (rule phenotype_is_present_example)+
  have k: "False \<or> True" by simp
  have s1: "getitem (example_row '''' ''PMID:1'') ''DatabaseID'' =
            getitem (example_row '''' ''PMID:2'') ''DatabaseID''"
    and s2: "getitem (example_row '''' ''PMID:1'') ''HPO_ID'' =
             getitem (example_row '''' ''PMID:2'') ''HPO_ID''"
    and d: "getitem (example_row '''' ''PMID:1'') ''Reference'' \<noteq>
            getitem (example_row '''' ''PMID:2'') ''Reference''"
    by (simp_all add: getitem_example)
  have n: "example_edge True ''PMID:1'' \<noteq> example_edge True ''PMID:2''"
    by (simp add: example_edge_def)
  have t: "tables (write_edges hpoa [example_edge True ''PMID:1'', example_edge True ''PMID:2'']
               (example_fs [])) (edges_out_path hpoa) =
       Some [[''subject'', ''predicate'', ''object'', ''relation'', ''provided_by'', ''''],
             [''OMIM:101600'', ''biolink:has_phenotype'', ''HP:0001'', ''RO:0002200'',
              ''HPO:hpoa'', ''''],
             [''OMIM:101600'', ''biolink:has_phenotype'', ''HP:0001'', ''RO:0002200'',
              ''HPO:hpoa'', '''']]"
    by (simp add: write_edges_def write_table_def dict_to_list_edge_row example_edge_def
          render_def)
       (simp add: edge_tsv_column_names_def)
  from references_give_duplicate_rows [OF l m1 p1 m2 p2 k s1 s2 d, of hpoa "example_fs []"]
       l d n t
  show ?thesis by blast
qed

end
